theory Spec2Isabelle
  imports Complex_Main "HOL-Library.AList"
begin

section \<open>Data model (types.ts)\<close>

text \<open>
  The type \<open>Mood\<close> is the closed union of nine string literals, \<open>MoodEntry\<close> the
  interface of one recorded observation. A \<open>Date\<close> is its time value, the number of
  milliseconds since the epoch. The optional field \<open>notes\<close> is the option
  \<open>entryNotes\<close>, and the field \<open>id\<close> is \<open>entryId\<close>.
\<close>

datatype Mood = Happy | Sad | Neutral | Anxious | Calm | Excited | Tired | Angry | Content

datatype Source = Journal | Voice | Facial

record MoodEntry =
  entryId :: string
  mood :: Mood
  emoji :: string
  date :: int
  source :: Source
  entryNotes :: "string option"

text \<open>The string each member of \<open>Mood\<close> is at run time.\<close>

fun moodName :: "Mood \<Rightarrow> string" where
  "moodName Happy = ''Happy''"
| "moodName Sad = ''Sad''"
| "moodName Neutral = ''Neutral''"
| "moodName Anxious = ''Anxious''"
| "moodName Calm = ''Calm''"
| "moodName Excited = ''Excited''"
| "moodName Tired = ''Tired''"
| "moodName Angry = ''Angry''"
| "moodName Content = ''Content''"

section \<open>Trend series (moodToValue, MoodChart)\<close>

text \<open>
  \<open>moodToValue\<close> looks the mood up in a literal table and returns
  \<open>mapping[mood] || 4\<close>. The operator \<open>||\<close> yields its right operand when the left
  one is falsy, and the numbers that are falsy are \<open>0\<close> (and NaN, which the table does
  not hold); a missing key reads as \<open>undefined\<close>, falsy too.
\<close>

definition mapping :: "(Mood \<times> int) list" where
  "mapping =
     [(Angry, 0), (Sad, 1), (Tired, 2), (Anxious, 3), (Neutral, 4),
      (Content, 5), (Calm, 6), (Excited, 7), (Happy, 8)]"

definition moodToValue :: "Mood \<Rightarrow> int" where
  "moodToValue m =
     (case map_of mapping m of
        None \<Rightarrow> 4
      | Some v \<Rightarrow> if v = 0 then 4 else v)"

text \<open>
  \<open>MoodChart\<close> maps every entry to a chart point. The label comes from
  \<open>toLocaleDateString\<close>, which depends on the locale data and time zone of the host:
  it is a parameter here. With fewer than two points the component renders a
  placeholder instead of the line chart.
\<close>

record ChartPoint =
  label :: string
  moodValue :: int
  pointMood :: Mood

definition chartData :: "(int \<Rightarrow> string) \<Rightarrow> MoodEntry list \<Rightarrow> ChartPoint list" where
  "chartData toLocaleDateString data =
     map (\<lambda>entry. \<lparr>label = toLocaleDateString (date entry),
                    moodValue = moodToValue (mood entry),
                    pointMood = mood entry\<rparr>) data"

datatype ChartView = NotEnoughData | LineChart "ChartPoint list"

definition MoodChart :: "(int \<Rightarrow> string) \<Rightarrow> MoodEntry list \<Rightarrow> ChartView" where
  "MoodChart toLocaleDateString data =
     (if length (chartData toLocaleDateString data) < 2 then NotEnoughData
      else LineChart (chartData toLocaleDateString data))"

section \<open>The remote model and its structured responses (geminiService)\<close>

text \<open>
  The generative model is outside the program. A call either throws (transport
  failure, a response without text on which \<open>.trim()\<close> throws, text that
  \<open>JSON.parse\<close> rejects) or yields the value \<open>JSON.parse\<close> returns. The parsed value
  is any JSON value: the response schema is sent to the service with the request, and
  nothing in the program compares the parsed value with it.

  A string is the list of its bytes in UTF-8. A JSON number is its value; zero is the
  one that is falsy. An object is the list of its properties, each key once (of a
  repeated key \<open>JSON.parse\<close> keeps one value).
\<close>

datatype json =
    JNull
  | JBool bool
  | JNum rat
  | JStr string
  | JArr "json list"
  | JObj "(string \<times> json) list"

datatype failure = TransportFailure | MissingText | JsonSyntaxError

datatype outcome = Failed failure | Parsed json

text \<open>
  A request is its prompt, with the image for the image request, and with the one
  part of the response schema that is not a constant for the recommendations request
  (the description of \<open>videos\<close>).
\<close>

datatype request =
    TextRequest string
  | ImageRequest string string
  | RecommendationsRequest string string

text \<open>
  Reading a property: on \<open>null\<close> it throws a TypeError (the result \<open>None\<close>); on
  an object it gives the value of the key or \<open>undefined\<close>; on the other values the
  keys read here (\<open>mood\<close>, \<open>emoji\<close>) are \<open>undefined\<close>. The value \<open>undefined\<close> is
  \<open>Undefined\<close>, a value \<open>Val\<close>.
\<close>

datatype jsval = Undefined | Val json

fun getProp :: "json \<Rightarrow> string \<Rightarrow> jsval option" where
  "getProp JNull k = None"
| "getProp (JObj kvs) k = Some (case map_of kvs k of None \<Rightarrow> Undefined | Some v \<Rightarrow> Val v)"
| "getProp v k = Some Undefined"

fun truthy :: "jsval \<Rightarrow> bool" where
  "truthy Undefined = False"
| "truthy (Val JNull) = False"
| "truthy (Val (JBool b)) = b"
| "truthy (Val (JNum n)) = (n \<noteq> 0)"
| "truthy (Val (JStr s)) = (s \<noteq> [])"
| "truthy (Val (JArr xs)) = True"
| "truthy (Val (JObj kvs)) = True"

text \<open>The \<open>enum\<close> of the field \<open>mood\<close> in the response schemas.\<close>

definition moodEnum :: "string list" where
  "moodEnum =
     [''Happy'', ''Sad'', ''Neutral'', ''Anxious'', ''Calm'', ''Excited'', ''Tired'', ''Angry'',
      ''Content'']"

text \<open>The emoji U+1F610 of the two fallback literals.\<close>

definition neutralFace :: string where
  "neutralFace = [CHR 0xF0, CHR 0x9F, CHR 0x98, CHR 0x90]"

subsection \<open>analyzeTextMood\<close>

definition textPrompt :: "string \<Rightarrow> string" where
  "textPrompt text =
     ''Analyze the mood from the following journal entry and provide a brief, gentle, one-sentence summary of its feeling. Entry: \"''
     @ text @ ''\"''"

definition textFallback :: json where
  "textFallback =
     JObj [(''mood'', JStr ''Neutral''), (''emoji'', JStr neutralFace),
           (''notes'', JStr ''Could not analyze mood.'')]"

datatype error = RemoteError failure | TypeError | InvalidFormat

text \<open>
  The \<open>try\<close> block: what it returns or throws. A parsed value is returned as it is
  (\<open>resultJson as {...}\<close> is a cast, erased at run time). The \<open>catch\<close> block turns
  whatever was thrown into the fallback.
\<close>

definition textTry :: "outcome \<Rightarrow> error + json" where
  "textTry r =
     (case r of
        Failed f \<Rightarrow> Inl (RemoteError f)
      | Parsed resultJson \<Rightarrow> Inr resultJson)"

definition analyzeTextMood :: "(request \<Rightarrow> outcome) \<Rightarrow> string \<Rightarrow> json" where
  "analyzeTextMood generateContent text =
     (case textTry (generateContent (TextRequest (textPrompt text))) of
        Inl _ \<Rightarrow> textFallback
      | Inr v \<Rightarrow> v)"

subsection \<open>analyzeImageMood\<close>

definition imagePrompt :: string where
  "imagePrompt = ''Analyze the dominant mood of the person in this image.''"

definition imageFallback :: json where
  "imageFallback =
     JObj [(''mood'', JStr ''Neutral''), (''emoji'', JStr neutralFace),
           (''notes'', JStr ''Could not determine mood from image.'')]"

text \<open>
  The \<open>try\<close> block: what it returns or throws. \<open>resultJson.mood && resultJson.emoji\<close>
  tests truthiness; in the branch taken, \<open>resultJson.mood.toLowerCase()\<close> throws a
  TypeError unless the mood is a string. \<open>String.prototype.toLowerCase\<close> follows the
  Unicode case mappings of the host: it is a parameter here.
\<close>

definition imageTry :: "(string \<Rightarrow> string) \<Rightarrow> outcome \<Rightarrow> error + json" where
  "imageTry toLowerCase r =
     (case r of
        Failed f \<Rightarrow> Inl (RemoteError f)
      | Parsed resultJson \<Rightarrow>
          (case getProp resultJson ''mood'' of
             None \<Rightarrow> Inl TypeError
           | Some m \<Rightarrow>
               if \<not> truthy m then Inl InvalidFormat
               else (case getProp resultJson ''emoji'' of
                  None \<Rightarrow> Inl TypeError
                | Some e \<Rightarrow>
                    if \<not> truthy e then Inl InvalidFormat
                    else (case (m, e) of
                       (Val (JStr s), Val ev) \<Rightarrow>
                         Inr (JObj [(''mood'', JStr s), (''emoji'', ev),
                                    (''notes'', JStr (''Detected a '' @ toLowerCase s @ '' expression.''))])
                     | _ \<Rightarrow> Inl TypeError))))"

definition analyzeImageMood ::
  "(string \<Rightarrow> string) \<Rightarrow> (request \<Rightarrow> outcome) \<Rightarrow> string \<Rightarrow> json" where
  "analyzeImageMood toLowerCase generateContent base64Image =
     (case imageTry toLowerCase (generateContent (ImageRequest imagePrompt base64Image)) of
        Inl _ \<Rightarrow> imageFallback
      | Inr v \<Rightarrow> v)"

subsection \<open>getRecommendations\<close>

datatype VideoType = Meditation | Funny

fun videoTypeName :: "VideoType \<Rightarrow> string" where
  "videoTypeName Meditation = ''Meditation''"
| "videoTypeName Funny = ''Funny''"

text \<open>
  The fields \<open>title\<close> and \<open>type\<close> of \<open>YouTubeVideo\<close> are \<open>videoTitle\<close> and
  \<open>videoKind\<close>.
\<close>

record SpotifyPlaylist =
  title :: string
  description :: string

record YouTubeVideo =
  videoTitle :: string
  videoKind :: VideoType

record Recommendations =
  forMood :: Mood
  breathing :: "string list"
  journaling :: "string list"
  music :: "SpotifyPlaylist list"
  videos :: "YouTubeVideo list"

definition defaultRecommendations :: Recommendations where
  "defaultRecommendations =
     \<lparr>forMood = Neutral,
      breathing =
        [''Take 5 deep breaths.'',
         ''Try box breathing: inhale 4s, hold 4s, exhale 4s, hold 4s.'',
         ''Focus on your breath for one minute.''],
      journaling =
        [''What is one thing you are grateful for today?'',
         ''Describe a small moment of joy you experienced.'',
         ''What is something you can let go of?''],
      music =
        [\<lparr>title = ''Acoustic Calm'',
           description = ''Gentle instrumental guitar to soothe your mind.''\<rparr>,
         \<lparr>title = ''Lofi Beats'',
           description = ''Relaxing hip hop beats for focus and chill.''\<rparr>],
      videos =
        [\<lparr>videoTitle = ''5-Minute Guided Meditation for Beginners'', videoKind = Meditation\<rparr>,
         \<lparr>videoTitle = ''Peaceful Forest Stream Sounds'', videoKind = Meditation\<rparr>]\<rparr>"

definition recommendationsPrompt :: "Mood \<Rightarrow> VideoType \<Rightarrow> string" where
  "recommendationsPrompt latestMood videoType =
     ''You are a caring and empathetic mental wellness assistant. The user's most recent mood is ''
     @ [CHR 0x27] @ moodName latestMood @ [CHR 0x27] @ ''.'' @ [CHR 0x0A]
     @ ''  Based on this mood, provide supportive recommendations in JSON format.'' @ [CHR 0x0A]
     @ ''  - Suggest 3 simple, calming breathing exercises.'' @ [CHR 0x0A]
     @ ''  - Suggest 3 gentle journaling prompts relevant to the mood.'' @ [CHR 0x0A]
     @ ''  - Suggest 2 music playlists. For each, provide a catchy title and a short, one-sentence description, like a Spotify playlist.''
     @ [CHR 0x0A]
     @ ''  - Suggest 2 '' @ videoTypeName videoType
     @ '' video ideas. For each, provide a short, clickable title, like a YouTube video.''"

definition videosDescription :: "VideoType \<Rightarrow> string" where
  "videosDescription videoType =
     ''List of 2 '' @ videoTypeName videoType @ '' video recommendations.''"

text \<open>
  The \<open>switch\<close> of the \<open>catch\<close> block: three fields of the fallback are overwritten
  for five moods, Happy and Excited sharing one case (\<open>happyOrExcitedFallback\<close>);
  the other moods have no case.
\<close>

definition happyOrExcitedFallback :: "Recommendations \<Rightarrow> Recommendations" where
  "happyOrExcitedFallback fallback =
     fallback
       \<lparr>journaling :=
          [''What are three things that contributed to this feeling?'',
           ''How can you share this positive energy with others?'',
           ''Describe this feeling in as much detail as possible.''],
        music :=
          [\<lparr>title = ''Good Vibes Only'',
             description = ''Upbeat pop and indie tracks to keep the energy high.''\<rparr>,
           \<lparr>title = ''Dance Party USA'',
             description = ''Non-stop hits that make you want to move.''\<rparr>],
        videos :=
          [\<lparr>videoTitle = ''Try Not to Laugh Challenge'', videoKind = Funny\<rparr>,
           \<lparr>videoTitle = ''Cute Animals Compilation'', videoKind = Funny\<rparr>]\<rparr>"

fun moodSpecificFallback :: "Mood \<Rightarrow> Recommendations \<Rightarrow> Recommendations" where
  "moodSpecificFallback Sad fallback =
     fallback
       \<lparr>journaling :=
          [''What's one small thing that could bring you comfort right now?'',
           ''Write a letter to your sadness, what would you say?'',
           ''Recall a memory that once made you happy.''],
        music :=
          [\<lparr>title = ''Hopeful Ambient'',
             description = ''Gentle soundscapes to lift your spirits.''\<rparr>,
           \<lparr>title = ''Comforting Classics'',
             description = ''Familiar, soothing classical pieces.''\<rparr>],
        videos :=
          [\<lparr>videoTitle = ''10-Min Meditation for Sadness'', videoKind = Meditation\<rparr>,
           \<lparr>videoTitle = ''Guided Visualization: Your Safe Place'', videoKind = Meditation\<rparr>]\<rparr>"
| "moodSpecificFallback Anxious fallback =
     fallback
       \<lparr>journaling :=
          [''What is within my control right now?'',
           ''List 5 things you can see, 4 you can touch, 3 you can hear.'',
           ''Write down your worries and then physically close the book on them.''],
        music :=
          [\<lparr>title = ''Binaural Beats for Anxiety'',
             description = ''Frequencies designed to calm the mind.''\<rparr>,
           \<lparr>title = ''Nature Sounds: Rain on a Window'',
             description = ''The soothing sound of gentle rain.''\<rparr>],
        videos :=
          [\<lparr>videoTitle = ''Body Scan Meditation for Anxiety'', videoKind = Meditation\<rparr>,
           \<lparr>videoTitle = ''Guided Breathing for Panic Attacks'', videoKind = Meditation\<rparr>]\<rparr>"
| "moodSpecificFallback Angry fallback =
     fallback
       \<lparr>journaling :=
          [''What is the root cause of this anger?'',
           ''Write down everything you want to scream, then tear up the paper.'',
           ''What is a productive action I can take with this energy?''],
        music :=
          [\<lparr>title = ''Power Rock Anthems'',
             description = ''High-energy tracks to release tension.''\<rparr>,
           \<lparr>title = ''Intense Classical'',
             description = ''Dramatic orchestral pieces to match your intensity.''\<rparr>],
        videos :=
          [\<lparr>videoTitle = ''Walking Meditation to Release Anger'', videoKind = Meditation\<rparr>,
           \<lparr>videoTitle = ''Try This When You Feel Angry (Guided Practice)'',
             videoKind = Meditation\<rparr>]\<rparr>"
| "moodSpecificFallback Happy fallback = happyOrExcitedFallback fallback"
| "moodSpecificFallback Excited fallback = happyOrExcitedFallback fallback"
| "moodSpecificFallback latestMood fallback = fallback"

text \<open>
  What the function resolves to: a bundle built by the program, or
  \<open>{ ...parsed, forMood: latestMood }\<close>, the own properties of whatever was parsed with
  the mood stamped over them (\<open>Stamped parsed latestMood\<close>). The list of requests beside
  the result is the sequence of calls made to the remote model. In
  \<open>latestEntry?.mood || 'Neutral'\<close> the default is taken for the missing entry only: a
  mood is one of nine non-empty strings, all truthy.
\<close>

datatype RecommendationsResult = Bundle Recommendations | Stamped json Mood

definition getRecommendations ::
  "(request \<Rightarrow> outcome) \<Rightarrow> MoodEntry list \<Rightarrow> request list \<times> RecommendationsResult" where
  "getRecommendations generateContent moodHistory =
     (let latestEntry =
            (if length moodHistory > 0 then Some (moodHistory ! (length moodHistory - 1))
             else None);
          latestMood = (case latestEntry of None \<Rightarrow> Neutral | Some e \<Rightarrow> mood e)
      in if length moodHistory = 0 then ([], Bundle defaultRecommendations)
         else
           let videoType =
                 (if List.member [Sad, Anxious, Angry, Tired] latestMood then Meditation
                  else Funny);
               req = RecommendationsRequest (recommendationsPrompt latestMood videoType)
                       (videosDescription videoType)
           in (case generateContent req of
                 Parsed parsed \<Rightarrow> ([req], Stamped parsed latestMood)
               | Failed _ \<Rightarrow>
                   ([req],
                    Bundle (moodSpecificFallback latestMood
                              (defaultRecommendations\<lparr>forMood := latestMood\<rparr>)))))"

section \<open>Mood aggregation (emotionStats of the mood tracker)\<close>

subsection \<open>Numbers\<close>

text \<open>
  \<open>Math.round((count / total) * 100)\<close> is computed on IEEE 754 binary64 numbers:
  the quotient is rounded to the nearest double, the product is rounded again, and
  \<open>Math.round\<close> takes the result to the nearest integer, a tie going up. The counts
  are below \<open>2\<^sup>3\<^sup>2\<close> (the bound of an array length), so every value met here is in
  the normal range of the format, where rounding to a double is rounding to 53
  significant bits, a tie going to the even significand. \<open>binade x\<close> is the exponent
  \<open>e\<close> with \<open>2\<^sup>e \<le> x < 2\<^sup>e\<^sup>+\<^sup>1\<close>.
\<close>

function binade :: "rat \<Rightarrow> int" where
  "binade x =
     (if x \<le> 0 then 0
      else if 2 \<le> x then binade (x / 2) + 1
      else if x < 1 then binade (2 * x) - 1
      else 0)"
  by pat_completeness auto
termination
proof (relation "measure (\<lambda>x. nat \<lceil>x\<rceil> + 2 * nat \<lceil>1 / x\<rceil>)")
  show "wf (measure (\<lambda>x::rat. nat \<lceil>x\<rceil> + 2 * nat \<lceil>1 / x\<rceil>))" by simp
next
  fix x :: rat
  assume a: "\<not> x \<le> 0" "2 \<le> x"
  have "x / 2 \<le> x - 1" using a by simp
  then have c1: "\<lceil>x / 2\<rceil> \<le> \<lceil>x\<rceil> - 1" by (metis ceiling_mono ceiling_diff_one)
  have "0 < 1 / (x / 2)" "1 / (x / 2) \<le> 1" using a by simp_all
  then have c2: "\<lceil>1 / (x / 2)\<rceil> = 1" by (simp add: ceiling_eq_iff)
  have "0 < 1 / x" using a by simp
  then have c3: "1 \<le> \<lceil>1 / x\<rceil>" by (simp add: ceiling_le_iff le_ceiling_iff)
  have c4: "2 \<le> \<lceil>x\<rceil>" using a by (simp add: le_ceiling_iff)
  show "(x / 2, x) \<in> measure (\<lambda>x. nat \<lceil>x\<rceil> + 2 * nat \<lceil>1 / x\<rceil>)"
    unfolding in_measure using c1 c2 c3 c4 by linarith
next
  fix x :: rat
  assume a: "\<not> x \<le> 0" "\<not> 2 \<le> x" "x < 1"
  have c1: "\<lceil>x\<rceil> = 1" using a by (simp add: ceiling_eq_iff)
  have "2 * x \<le> 2" using a by simp
  then have c2: "\<lceil>2 * x\<rceil> \<le> 2" by (simp add: ceiling_le_iff)
  have "0 < 2 * x" using a by simp
  then have c2': "1 \<le> \<lceil>2 * x\<rceil>" by (simp add: le_ceiling_iff)
  have y: "1 < 1 / x" using a by simp
  have c3: "\<lceil>1 / (2 * x)\<rceil> \<le> \<lceil>1 / x\<rceil> - 1"
  proof (cases "1 / x \<le> 2")
    case True
    have "\<lceil>1 / x\<rceil> = 2" using True y by (simp add: ceiling_eq_iff)
    moreover have "1 / (2 * x) \<le> 1" using True a by (simp add: field_simps)
    then have "\<lceil>1 / (2 * x)\<rceil> \<le> 1" by (simp add: ceiling_le_iff)
    ultimately show ?thesis by simp
  next
    case False
    then have "1 / (2 * x) \<le> 1 / x - 1" using a by (simp add: field_simps)
    then show ?thesis by (metis ceiling_mono ceiling_diff_one)
  qed
  have "0 < 1 / (2 * x)" using a by simp
  then have c4: "1 \<le> \<lceil>1 / (2 * x)\<rceil>" by (simp add: le_ceiling_iff)
  show "(2 * x, x) \<in> measure (\<lambda>x. nat \<lceil>x\<rceil> + 2 * nat \<lceil>1 / x\<rceil>)"
    unfolding in_measure using c1 c2 c2' c3 c4 by linarith
qed


declare binade.simps [simp del]

definition roundHalfEven :: "rat \<Rightarrow> int" where
  "roundHalfEven y =
     (let n = \<lfloor>y\<rfloor>; r = y - of_int n
      in if r < 1 / 2 then n
         else if 1 / 2 < r then n + 1
         else if even n then n else n + 1)"

definition roundToDouble :: "rat \<Rightarrow> rat" where
  "roundToDouble x =
     (if x = 0 then 0
      else let ulp = 2 powi (binade \<bar>x\<bar> - 52)
           in sgn x * of_int (roundHalfEven (\<bar>x\<bar> / ulp)) * ulp)"

definition mathRound :: "rat \<Rightarrow> int" where
  "mathRound x = \<lfloor>x + 1 / 2\<rfloor>"

definition percentageOf :: "nat \<Rightarrow> nat \<Rightarrow> int" where
  "percentageOf cnt tot =
     mathRound (roundToDouble (roundToDouble (of_nat cnt / of_nat tot) * 100))"

subsection \<open>emotionStats\<close>

text \<open>
  The two \<open>reduce\<close> calls build objects keyed by mood; an object lists its string
  keys in the order of their first insertion, which an association list updated in
  place keeps. \<open>acc[k] || 0\<close> reads a missing key, or a zero, as 0; \<open>!acc[k]\<close> holds
  for a missing key and for the empty string.
\<close>

definition countStep :: "(Mood \<times> nat) list \<Rightarrow> MoodEntry \<Rightarrow> (Mood \<times> nat) list" where
  "countStep acc entry =
     AList.update (mood entry)
       ((case map_of acc (mood entry) of
           None \<Rightarrow> 0
         | Some c \<Rightarrow> if c = 0 then 0 else c) + 1) acc"

definition emojiStep :: "(Mood \<times> string) list \<Rightarrow> MoodEntry \<Rightarrow> (Mood \<times> string) list" where
  "emojiStep acc entry =
     (case map_of acc (mood entry) of
        None \<Rightarrow> AList.update (mood entry) (emoji entry) acc
      | Some s \<Rightarrow> if s = [] then AList.update (mood entry) (emoji entry) acc else acc)"

text \<open>
  The literal after \<open>emojiMap[mood] ||\<close>, byte for byte as the source file holds it
  (the characters U+F8FF, U+00FC, U+00F2, U+00EA).
\<close>

definition placeholderEmoji :: string where
  "placeholderEmoji =
     [CHR 0xEF, CHR 0xA3, CHR 0xBF, CHR 0xC3, CHR 0xBC, CHR 0xC3, CHR 0xB2, CHR 0xC3, CHR 0xAA]"

text \<open>The lookup \<open>emojiMap[mood] || placeholder\<close> of a row.\<close>

definition emojiFor :: "(Mood \<times> string) list \<Rightarrow> Mood \<Rightarrow> string" where
  "emojiFor emojiMap m =
     (case map_of emojiMap m of
        None \<Rightarrow> placeholderEmoji
      | Some s \<Rightarrow> if s = [] then placeholderEmoji else s)"

text \<open>
  The fields \<open>mood\<close>, \<open>count\<close> and \<open>emoji\<close> of a row are \<open>statMood\<close>, \<open>statCount\<close>
  and \<open>statEmoji\<close>.
\<close>

record EmotionStat =
  statMood :: Mood
  statCount :: nat
  percentage :: int
  statEmoji :: string

text \<open>
  \<open>Array.prototype.sort\<close> is stable, and the comparator \<open>b.count - a.count\<close> orders
  by descending count: a stable insertion sort on the negated count.
\<close>

definition emotionStats :: "MoodEntry list \<Rightarrow> MoodEntry list \<Rightarrow> EmotionStat list" where
  "emotionStats moodHistory data =
     (if length data = 0 then []
      else
        let counts = foldl countStep [] data;
            tot = length data;
            emojiMap = foldl emojiStep [] moodHistory
        in sort_key (\<lambda>a. - int (statCount a))
             (map (\<lambda>(m, c).
                     \<lparr>statMood = m,
                      statCount = c,
                      percentage = percentageOf c tot,
                      statEmoji = emojiFor emojiMap m\<rparr>)
                counts))"

text \<open>
  The lists the three cards are given: the entries not older than a cutoff (computed
  from the wall clock and the local calendar, a parameter here), or the whole history.
\<close>

definition entriesSince :: "int \<Rightarrow> MoodEntry list \<Rightarrow> MoodEntry list" where
  "entriesSince cutoff moodHistory = filter (\<lambda>entry. cutoff \<le> date entry) moodHistory"

section \<open>Session state (App)\<close>

datatype Page =
    Splash | Welcome | SignIn | SignUp | Home | JournalPage | VoiceLog | MoodScan
  | MoodTracker | RecommendationsPage | Safety | SupportChat

datatype Sender = FromUser | FromAi

text \<open>
  The fields \<open>id\<close> and \<open>text\<close> of a chat message are \<open>msgId\<close> and \<open>msgText\<close>; the
  senders \<open>'user'\<close> and \<open>'ai'\<close> are \<open>FromUser\<close> and \<open>FromAi\<close>.
\<close>

record ChatMessage =
  msgId :: string
  msgText :: string
  sender :: Sender

record Chat =
  chatModel :: string
  systemInstruction :: string

definition startChatSession :: Chat where
  "startChatSession =
     \<lparr>chatModel = ''gemini-2.5-flash'',
      systemInstruction =
        ''You are MindWell, a friendly and empathetic AI wellness assistant. Your goal is to provide a safe space for users to express their feelings. Offer supportive words, calming suggestions like breathing exercises or journaling prompts, and be a good listener. If a user asks for music, suggest a type of relaxing music. If they ask to journal, encourage them and perhaps offer a prompt. Keep your responses concise and gentle.''\<rparr>"

text \<open>
  The state of the component \<open>App\<close>: its \<open>useState\<close> cells and the \<open>useRef\<close> cell
  \<open>chatSessionRef\<close> (the field \<open>chatSession\<close>; \<open>None\<close> is \<open>null\<close>). The user is its name.
\<close>

record App =
  currentPage :: Page
  user :: string
  moodHistory :: "MoodEntry list"
  highDistressAlert :: bool
  chatSession :: "Chat option"
  chatHistory :: "ChatMessage list"
  isAiTyping :: bool

definition initialApp :: App where
  "initialApp =
     \<lparr>currentPage = Splash, user = ''Alex'', moodHistory = [], highDistressAlert = False,
      chatSession = None, chatHistory = [], isAiTyping = False\<rparr>"

definition navigate :: "Page \<Rightarrow> App \<Rightarrow> App" where
  "navigate page s = s\<lparr>currentPage := page\<rparr>"

definition setUser :: "string \<Rightarrow> App \<Rightarrow> App" where
  "setUser name s = s\<lparr>user := name\<rparr>"

definition setHighDistressAlert :: "bool \<Rightarrow> App \<Rightarrow> App" where
  "setHighDistressAlert isAlert s = s\<lparr>highDistressAlert := isAlert\<rparr>"

text \<open>
  The test \<open>['Sad', 'Angry', 'Anxious'].includes(newEntry.mood)\<close> of \<open>addMoodEntry\<close>.
\<close>

definition isHighDistress :: "MoodEntry \<Rightarrow> bool" where
  "isHighDistress newEntry = List.member [Sad, Angry, Anxious] (mood newEntry)"

text \<open>
  \<open>addMoodEntry\<close> reads the clock twice, for the id and for the date; the readings
  and \<open>toISOString\<close> are parameters. \<open>{ ...entry, id, date }\<close> overwrites the two
  fields of what it is given.
\<close>

definition addMoodEntry :: "(int \<Rightarrow> string) \<Rightarrow> int \<Rightarrow> int \<Rightarrow> MoodEntry \<Rightarrow> App \<Rightarrow> App" where
  "addMoodEntry toISOString nowId nowDate entry s =
     (let newEntry = entry\<lparr>entryId := toISOString nowId, date := nowDate\<rparr>;
          s' = s\<lparr>moodHistory := moodHistory s @ [newEntry]\<rparr>
      in if isHighDistress newEntry then setHighDistressAlert True s' else s')"

text \<open>\<open>handleDismiss\<close> of the safety screen, the one caller of \<open>setHighDistressAlert(false)\<close>.\<close>

definition handleDismiss :: "App \<Rightarrow> App" where
  "handleDismiss s = navigate Home (setHighDistressAlert False s)"

definition initializeChat :: "App \<Rightarrow> App" where
  "initializeChat s =
     (case chatSession s of
        None \<Rightarrow>
          s\<lparr>chatSession := Some startChatSession,
            chatHistory :=
              [\<lparr>msgId = ''init-1'',
                msgText = ''Hello! I'm your MindWell assistant. How can I support you right now?'',
                sender = FromAi\<rparr>]\<rparr>
      | Some _ \<Rightarrow> s)"

text \<open>Decimal digits of \<open>Date.now()\<close> inside a template literal.\<close>

function decimal :: "nat \<Rightarrow> string" where
  "decimal n =
     (if n < 10 then [char_of (48 + n)]
      else decimal (n div 10) @ [char_of (48 + n mod 10)])"
  by pat_completeness auto
termination
  by (relation "measure (\<lambda>n. n)") auto

declare decimal.simps [simp del]

definition showInt :: "int \<Rightarrow> string" where
  "showInt i = (if i < 0 then ''-'' @ decimal (nat (- i)) else decimal (nat i))"

text \<open>
  \<open>sendMessage\<close> is asynchronous: it issues state updates before and after the
  awaited reply of the chat session. It is modelled by the sequence of effects it
  issues, in order; every update of the chat history is a functional update
  (\<open>prev => [...prev, m]\<close>). The reply is the trimmed text of the response, or the
  failure of the call.
\<close>

datatype ChatReply = ChatFailed | ChatText string

datatype Effect =
    AppendChatMessage ChatMessage
  | SetIsAiTyping bool
  | SendToChatSession Chat string

definition sendMessage :: "Chat option \<Rightarrow> int \<Rightarrow> int \<Rightarrow> ChatReply \<Rightarrow> string \<Rightarrow> Effect list" where
  "sendMessage chatSessionRef nowUser nowAi reply message =
     (case chatSessionRef of
        None \<Rightarrow> []
      | Some chat \<Rightarrow>
          [AppendChatMessage
             \<lparr>msgId = ''user-'' @ showInt nowUser, msgText = message, sender = FromUser\<rparr>,
           SetIsAiTyping True,
           SendToChatSession chat message,
           AppendChatMessage
             (case reply of
                ChatText t \<Rightarrow>
                  \<lparr>msgId = ''ai-'' @ showInt nowAi, msgText = t, sender = FromAi\<rparr>
              | ChatFailed \<Rightarrow>
                  \<lparr>msgId = ''ai-'' @ showInt nowAi,
                   msgText = ''I'm having a little trouble connecting right now. Please try again in a moment.'',
                   sender = FromAi\<rparr>),
           SetIsAiTyping False])"

fun applyEffect :: "App \<Rightarrow> Effect \<Rightarrow> App" where
  "applyEffect s (AppendChatMessage m) = s\<lparr>chatHistory := chatHistory s @ [m]\<rparr>"
| "applyEffect s (SetIsAiTyping b) = s\<lparr>isAiTyping := b\<rparr>"
| "applyEffect s (SendToChatSession chat message) = s"

text \<open>
  The operations a session is made of: the functions of the context value, with
  \<open>setHighDistressAlert\<close> behind its one caller \<open>handleDismiss\<close>.
\<close>

datatype Event =
    Navigate Page
  | SetUser string
  | AddMoodEntry int int MoodEntry
  | Dismiss
  | InitializeChat
  | SendMessage int int ChatReply string

fun step :: "(int \<Rightarrow> string) \<Rightarrow> App \<Rightarrow> Event \<Rightarrow> App" where
  "step toISOString s (Navigate page) = navigate page s"
| "step toISOString s (SetUser name) = setUser name s"
| "step toISOString s (AddMoodEntry nowId nowDate entry) =
     addMoodEntry toISOString nowId nowDate entry s"
| "step toISOString s Dismiss = handleDismiss s"
| "step toISOString s InitializeChat = initializeChat s"
| "step toISOString s (SendMessage nowUser nowAi reply message) =
     foldl applyEffect s (sendMessage (chatSession s) nowUser nowAi reply message)"

definition run :: "(int \<Rightarrow> string) \<Rightarrow> App \<Rightarrow> Event list \<Rightarrow> App" where
  "run toISOString s events = foldl (step toISOString) s events"

section \<open>Concrete inputs\<close>

text \<open>
  Entries, remote models and a rendering of dates on which the functions above are
  evaluated below.
\<close>

definition isoStub :: "int \<Rightarrow> string" where
  "isoStub t = ''t'' @ showInt t"

definition sadEntry :: MoodEntry where
  "sadEntry =
     \<lparr>entryId = ''e1'', mood = Sad, emoji = '':('', date = 1, source = Journal,
      entryNotes = None\<rparr>"

definition calmEntry :: MoodEntry where
  "calmEntry =
     \<lparr>entryId = ''e2'', mood = Calm, emoji = '':)'', date = 2, source = Voice,
      entryNotes = None\<rparr>"

definition happyEntry :: MoodEntry where
  "happyEntry =
     \<lparr>entryId = ''e3'', mood = Happy, emoji = '':D'', date = 3, source = Facial,
      entryNotes = Some ''Detected a happy expression.''\<rparr>"

text \<open>A Happy entry whose emoji is the empty string.\<close>

definition blankHappyEntry :: MoodEntry where
  "blankHappyEntry =
     \<lparr>entryId = ''e0'', mood = Happy, emoji = [], date = 0, source = Journal,
      entryNotes = None\<rparr>"

text \<open>
  \<open>String.prototype.toLowerCase\<close> as it is on strings of ASCII characters: the letters
  A to Z go to a to z. It stands for the library function on the ASCII strings below
  only.
\<close>

definition asciiToLowerCase :: "string \<Rightarrow> string" where
  "asciiToLowerCase s =
     map (\<lambda>c. if 65 \<le> (of_char c :: nat) \<and> (of_char c :: nat) \<le> 90
              then char_of ((of_char c :: nat) + 32) else c) s"

text \<open>A remote model whose every call fails in transport.\<close>

definition failingModel :: "request \<Rightarrow> outcome" where
  "failingModel req = Failed TransportFailure"

text \<open>A remote model that answers \<open>{}\<close>, which has none of the required fields.\<close>

definition emptyObjectModel :: "request \<Rightarrow> outcome" where
  "emptyObjectModel req = Parsed (JObj [])"

text \<open>A remote model that answers with a mood outside the enumeration.\<close>

definition furiousModel :: "request \<Rightarrow> outcome" where
  "furiousModel req =
     Parsed (JObj [(''emoji'', JStr ''>:(''), (''mood'', JStr ''Furious''),
                   (''notes'', JStr ''The entry sounds furious.'')])"

text \<open>Remote models that answer with a mood of the enumeration.\<close>

definition happyModel :: "request \<Rightarrow> outcome" where
  "happyModel req =
     Parsed (JObj [(''emoji'', JStr '':D''), (''mood'', JStr ''Happy''),
                   (''notes'', JStr ''A bright day.'')])"

definition emptyEmojiModel :: "request \<Rightarrow> outcome" where
  "emptyEmojiModel req = Parsed (JObj [(''emoji'', JStr []), (''mood'', JStr ''Happy'')])"

section \<open>Properties of the trend series\<close>

lemma moodToValue_other_moods:
  "moodToValue Sad = 1" "moodToValue Tired = 2" "moodToValue Anxious = 3"
  "moodToValue Neutral = 4" "moodToValue Content = 5" "moodToValue Calm = 6"
  "moodToValue Excited = 7" "moodToValue Happy = 8"
  by (simp_all add: moodToValue_def mapping_def)

lemma chartData_length: "length (chartData f data) = length data"
  by (simp add: chartData_def)

text \<open>
  Claim C1. The trend series is said to plot every mood at its entry of the scale
  Angry=0, ..., Happy=8. The table holds 0 for Angry, but \<open>0 || 4\<close> is 4: a history of
  an Angry and a Happy entry is charted at 4 and 8, and Angry lands on the value of
  Neutral.
\<close>

theorem trend_series_Angry_plotted_at_4:
  "moodToValue Angry = 4 \<and>
   MoodChart f
     [\<lparr>entryId = ''a'', mood = Angry, emoji = ''x'', date = 1, source = Journal, entryNotes = None\<rparr>,
      \<lparr>entryId = ''b'', mood = Happy, emoji = ''y'', date = 2, source = Voice, entryNotes = None\<rparr>]
   = LineChart [\<lparr>label = f 1, moodValue = 4, pointMood = Angry\<rparr>,
                \<lparr>label = f 2, moodValue = 8, pointMood = Happy\<rparr>]"
  by (simp add: MoodChart_def chartData_def moodToValue_def mapping_def)

section \<open>Properties of the mood classification adapter\<close>

lemma moodEnum_map:
  "moodEnum = map moodName [Happy, Sad, Neutral, Anxious, Calm, Excited, Tired, Angry, Content]"
  by (simp add: moodEnum_def)

lemma all_moods: "set [Happy, Sad, Neutral, Anxious, Calm, Excited, Tired, Angry, Content] = UNIV"
proof -
  have "m \<in> set [Happy, Sad, Neutral, Anxious, Calm, Excited, Tired, Angry, Content]" for m
    by (cases m) simp_all
  then show ?thesis by blast
qed

lemma set_moodEnum: "set moodEnum = range moodName"
  unfolding moodEnum_map set_map all_moods ..

lemma analyzeTextMood_Parsed:
  "generateContent (TextRequest (textPrompt text)) = Parsed r \<Longrightarrow>
   analyzeTextMood generateContent text = r"
  by (simp add: analyzeTextMood_def textTry_def)

lemma analyzeTextMood_Failed:
  "generateContent (TextRequest (textPrompt text)) = Failed f \<Longrightarrow>
   analyzeTextMood generateContent text = textFallback"
  by (simp add: analyzeTextMood_def textTry_def)

lemma analyzeTextMood_caught:
  "textTry (generateContent (TextRequest (textPrompt text))) = Inl err \<Longrightarrow>
   analyzeTextMood generateContent text = textFallback"
  by (simp add: analyzeTextMood_def)

text \<open>
  Claim C3, as the code has it. \<open>analyzeTextMood\<close> throws nothing: whatever the
  \<open>try\<close> block throws is turned into the fallback. When the remote call fails in
  transport, or its response has no text or text that is not JSON, the result is the
  literal \<open>{mood: 'Neutral', emoji: U+1F610, notes: 'Could not analyze mood.'}\<close>,
  whose mood is of the enumeration and whose emoji is not empty. When the parsed
  response holds a mood of the enumeration and a non-empty emoji, the result holds
  that mood and that emoji.
\<close>

theorem analyzeTextMood_degrades:
  "(textTry (generateContent (TextRequest (textPrompt text))) = Inl err \<longrightarrow>
      analyzeTextMood generateContent text = textFallback) \<and>
   (generateContent (TextRequest (textPrompt text)) = Failed f \<longrightarrow>
      analyzeTextMood generateContent text =
        JObj [(''mood'', JStr ''Neutral''), (''emoji'', JStr neutralFace),
              (''notes'', JStr ''Could not analyze mood.'')]) \<and>
   (generateContent (TextRequest (textPrompt text)) = Parsed r \<and>
    getProp r ''mood'' = Some (Val (JStr (moodName m))) \<and>
    getProp r ''emoji'' = Some (Val (JStr e)) \<and> e \<noteq> [] \<longrightarrow>
      getProp (analyzeTextMood generateContent text) ''mood'' = Some (Val (JStr (moodName m))) \<and>
      getProp (analyzeTextMood generateContent text) ''emoji'' = Some (Val (JStr e))) \<and>
   ''Neutral'' \<in> set moodEnum \<and> neutralFace \<noteq> []"
  using analyzeTextMood_Parsed[of generateContent "text" r]
    analyzeTextMood_Failed[of generateContent "text" f]
    analyzeTextMood_caught[of generateContent "text" err]
  by (auto simp: textFallback_def moodEnum_def neutralFace_def)

text \<open>The theorem at a remote model that fails and at one that answers within the schema.\<close>

theorem analyzeTextMood_degrades_witness:
  "analyzeTextMood failingModel ''I feel low'' =
     JObj [(''mood'', JStr ''Neutral''), (''emoji'', JStr neutralFace),
           (''notes'', JStr ''Could not analyze mood.'')] \<and>
   getProp (analyzeTextMood happyModel ''What a day'') ''mood'' = Some (Val (JStr ''Happy'')) \<and>
   getProp (analyzeTextMood happyModel ''What a day'') ''emoji'' = Some (Val (JStr '':D''))"
proof -
  have a: "failingModel (TextRequest (textPrompt ''I feel low'')) = Failed TransportFailure"
    by (simp add: failingModel_def)
  have b: "happyModel (TextRequest (textPrompt ''What a day'')) =
      Parsed (JObj [(''emoji'', JStr '':D''), (''mood'', JStr ''Happy''),
                    (''notes'', JStr ''A bright day.'')])"
    by (simp add: happyModel_def)
  have c: "getProp (JObj [(''emoji'', JStr '':D''), (''mood'', JStr ''Happy''),
                    (''notes'', JStr ''A bright day.'')]) ''mood'' = Some (Val (JStr (moodName Happy)))"
      "getProp (JObj [(''emoji'', JStr '':D''), (''mood'', JStr ''Happy''),
                    (''notes'', JStr ''A bright day.'')]) ''emoji'' = Some (Val (JStr '':D''))"
      "'':D'' \<noteq> []"
    by simp_all
  show ?thesis
    using analyzeTextMood_degrades[of failingModel "''I feel low''" TypeError TransportFailure
        JNull Happy "'':D''"] a
      analyzeTextMood_degrades[of happyModel "''What a day''" TypeError TransportFailure
        "JObj [(''emoji'', JStr '':D''), (''mood'', JStr ''Happy''),
               (''notes'', JStr ''A bright day.'')]" Happy "'':D''"] b c
    by simp
qed

text \<open>
  The claim as stated (every schema violation gives the fallback, and the mood is
  always one of the nine) fails: the parsed response is not compared with the schema,
  so a response with the mood \<open>Furious\<close> is returned as it is.
\<close>

theorem analyzeTextMood_off_schema_counterexample:
  "analyzeTextMood furiousModel ''I could scream'' =
     JObj [(''emoji'', JStr ''>:(''), (''mood'', JStr ''Furious''),
           (''notes'', JStr ''The entry sounds furious.'')] \<and>
   analyzeTextMood furiousModel ''I could scream'' \<noteq> textFallback \<and>
   getProp (analyzeTextMood furiousModel ''I could scream'') ''mood'' = Some (Val (JStr ''Furious'')) \<and>
   ''Furious'' \<notin> set moodEnum"
  by (simp add: analyzeTextMood_def textTry_def furiousModel_def textFallback_def moodEnum_def)

lemma analyzeImageMood_Failed:
  "generateContent (ImageRequest imagePrompt img) = Failed f \<Longrightarrow>
   analyzeImageMood toLowerCase generateContent img = imageFallback"
  by (simp add: analyzeImageMood_def imageTry_def)

lemma analyzeImageMood_detected:
  "generateContent (ImageRequest imagePrompt img) = Parsed r \<Longrightarrow>
   getProp r ''mood'' = Some (Val (JStr s)) \<Longrightarrow> s \<noteq> [] \<Longrightarrow>
   getProp r ''emoji'' = Some (Val e) \<Longrightarrow> truthy (Val e) \<Longrightarrow>
   analyzeImageMood toLowerCase generateContent img =
     JObj [(''mood'', JStr s), (''emoji'', e),
           (''notes'', JStr (''Detected a '' @ toLowerCase s @ '' expression.''))]"
  by (simp add: analyzeImageMood_def imageTry_def)

lemma truthy_Val: "truthy v \<Longrightarrow> \<exists>e. v = Val e"
  by (cases v) simp_all

lemma analyzeImageMood_rejected:
  assumes p: "generateContent (ImageRequest imagePrompt img) = Parsed r"
    and n: "\<not> (\<exists>s e. getProp r ''mood'' = Some (Val (JStr s)) \<and> s \<noteq> [] \<and>
               getProp r ''emoji'' = Some (Val e) \<and> truthy (Val e))"
  shows "analyzeImageMood toLowerCase generateContent img = imageFallback"
proof (cases "imageTry toLowerCase (Parsed r)")
  case (Inl a)
  then show ?thesis by (simp add: analyzeImageMood_def p)
next
  case (Inr v)
  from Inr obtain m where m: "getProp r ''mood'' = Some m" "truthy m"
    by (auto simp: imageTry_def split: option.splits if_splits)
  from Inr m obtain e where e: "getProp r ''emoji'' = Some e" "truthy e"
    by (auto simp: imageTry_def split: option.splits if_splits)
  obtain ev where ev: "e = Val ev" using truthy_Val[OF e(2)] by blast
  from Inr m e ev obtain s where s: "m = Val (JStr s)"
    by (auto simp: imageTry_def split: jsval.splits json.splits)
  have "s \<noteq> []" using m(2) s by simp
  then have False using n m e ev s by blast
  then show ?thesis ..
qed

text \<open>
  Claim C4, as the code has it. \<open>analyzeImageMood\<close> returns the literal
  \<open>{mood: 'Neutral', emoji: U+1F610, notes: 'Could not determine mood from image.'}\<close>
  when the remote call fails in transport or parsing, and when the parsed response
  does not hold both a mood that is a non-empty string and an emoji that is truthy
  (so when either field is missing, and also when it is present but falsy, the empty
  string among them). When it holds both, \<open>analyzeImageMood\<close> returns that mood and
  that emoji, with the notes \<open>Detected a <mood in lower case> expression.\<close>, the
  lower case being what \<open>String.prototype.toLowerCase\<close> makes of the mood, whatever
  that function is.
\<close>

theorem analyzeImageMood_contract:
  "(generateContent (ImageRequest imagePrompt img) = Failed f \<longrightarrow>
      analyzeImageMood toLowerCase generateContent img =
        JObj [(''mood'', JStr ''Neutral''), (''emoji'', JStr neutralFace),
              (''notes'', JStr ''Could not determine mood from image.'')]) \<and>
   (generateContent (ImageRequest imagePrompt img) = Parsed r \<and>
    \<not> (\<exists>s e. getProp r ''mood'' = Some (Val (JStr s)) \<and> s \<noteq> [] \<and>
             getProp r ''emoji'' = Some (Val e) \<and> truthy (Val e)) \<longrightarrow>
      analyzeImageMood toLowerCase generateContent img =
        JObj [(''mood'', JStr ''Neutral''), (''emoji'', JStr neutralFace),
              (''notes'', JStr ''Could not determine mood from image.'')]) \<and>
   (generateContent (ImageRequest imagePrompt img) = Parsed r \<and>
    getProp r ''mood'' = Some (Val (JStr s)) \<and> s \<noteq> [] \<and>
    getProp r ''emoji'' = Some (Val e) \<and> truthy (Val e) \<longrightarrow>
      analyzeImageMood toLowerCase generateContent img =
        JObj [(''mood'', JStr s), (''emoji'', e),
              (''notes'', JStr (''Detected a '' @ toLowerCase s @ '' expression.''))])"
  using analyzeImageMood_Failed[of generateContent img f toLowerCase]
    analyzeImageMood_rejected[of generateContent img r toLowerCase]
    analyzeImageMood_detected[of generateContent img r s e toLowerCase]
  unfolding imageFallback_def by blast

text \<open>
  The theorem at a remote model that fails, at one that answers \<open>{}\<close> and at one that
  answers Happy, an ASCII string, which \<open>toLowerCase\<close> takes to \<open>happy\<close>.
\<close>

theorem analyzeImageMood_contract_witness:
  "analyzeImageMood asciiToLowerCase failingModel ''/9j/4AAQ'' =
     JObj [(''mood'', JStr ''Neutral''), (''emoji'', JStr neutralFace),
           (''notes'', JStr ''Could not determine mood from image.'')] \<and>
   analyzeImageMood asciiToLowerCase emptyObjectModel ''/9j/4AAQ'' =
     JObj [(''mood'', JStr ''Neutral''), (''emoji'', JStr neutralFace),
           (''notes'', JStr ''Could not determine mood from image.'')] \<and>
   analyzeImageMood asciiToLowerCase happyModel ''/9j/4AAQ'' =
     JObj [(''mood'', JStr ''Happy''), (''emoji'', JStr '':D''),
           (''notes'', JStr ''Detected a happy expression.'')]"
proof -
  let ?h = "JObj [(''emoji'', JStr '':D''), (''mood'', JStr ''Happy''),
                  (''notes'', JStr ''A bright day.'')]"
  have a: "failingModel (ImageRequest imagePrompt ''/9j/4AAQ'') = Failed TransportFailure"
    by (simp add: failingModel_def)
  have b: "emptyObjectModel (ImageRequest imagePrompt ''/9j/4AAQ'') = Parsed (JObj [])"
    by (simp add: emptyObjectModel_def)
  have b': "\<not> (\<exists>s e. getProp (JObj []) ''mood'' = Some (Val (JStr s)) \<and> s \<noteq> [] \<and>
             getProp (JObj []) ''emoji'' = Some (Val e) \<and> truthy (Val e))"
    by simp
  have c: "happyModel (ImageRequest imagePrompt ''/9j/4AAQ'') = Parsed ?h"
    by (simp add: happyModel_def)
  have c': "getProp ?h ''mood'' = Some (Val (JStr ''Happy''))" "''Happy'' \<noteq> []"
    "getProp ?h ''emoji'' = Some (Val (JStr '':D''))" "truthy (Val (JStr '':D''))"
    by simp_all
  have l: "asciiToLowerCase ''Happy'' = ''happy''" by code_simp
  show ?thesis
    using analyzeImageMood_contract[of failingModel "''/9j/4AAQ''" TransportFailure asciiToLowerCase JNull
        "''Happy''" "JStr '':D''"] a
      analyzeImageMood_contract[of emptyObjectModel "''/9j/4AAQ''" TransportFailure asciiToLowerCase "JObj []"
        "''Happy''" "JStr '':D''"] b b'
      analyzeImageMood_contract[of happyModel "''/9j/4AAQ''" TransportFailure asciiToLowerCase ?h
        "''Happy''" "JStr '':D''"] c c' l
    by simp
qed

text \<open>
  The claim as stated (both fields present gives that mood and emoji) fails: the guard
  \<open>resultJson.mood && resultJson.emoji\<close> tests truthiness, so a response whose emoji
  is present and empty gives the fallback, not the mood Happy it holds.
\<close>

theorem analyzeImageMood_empty_emoji_counterexample:
  "getProp (JObj [(''emoji'', JStr []), (''mood'', JStr ''Happy'')]) ''mood''
     = Some (Val (JStr ''Happy'')) \<and>
   getProp (JObj [(''emoji'', JStr []), (''mood'', JStr ''Happy'')]) ''emoji''
     = Some (Val (JStr [])) \<and>
   analyzeImageMood asciiToLowerCase emptyEmojiModel ''/9j/4AAQ'' =
     JObj [(''mood'', JStr ''Neutral''), (''emoji'', JStr neutralFace),
           (''notes'', JStr ''Could not determine mood from image.'')]"
  by (simp add: analyzeImageMood_def imageTry_def emptyEmojiModel_def imageFallback_def)

section \<open>Properties of the recommendation generator\<close>

text \<open>
  Claim C7. On the empty history \<open>getRecommendations\<close> returns the literal default
  bundle, tagged Neutral, and the sequence of calls made to the remote model is empty,
  whatever the remote model would have answered.
\<close>

theorem getRecommendations_empty_history:
  "getRecommendations generateContent [] = ([], Bundle defaultRecommendations) \<and>
   forMood defaultRecommendations = Neutral \<and>
   length (breathing defaultRecommendations) = 3 \<and>
   length (journaling defaultRecommendations) = 3 \<and>
   length (music defaultRecommendations) = 2 \<and>
   length (videos defaultRecommendations) = 2"
  by (simp add: getRecommendations_def defaultRecommendations_def)

lemma getRecommendations_Sad_request:
  assumes h: "history \<noteq> []" and m: "mood (last history) = Sad"
  shows "getRecommendations generateContent history =
     (let req = RecommendationsRequest (recommendationsPrompt Sad Meditation)
                  (videosDescription Meditation)
      in case generateContent req of
           Parsed parsed \<Rightarrow> ([req], Stamped parsed Sad)
         | Failed f \<Rightarrow>
             ([req], Bundle (moodSpecificFallback Sad (defaultRecommendations\<lparr>forMood := Sad\<rparr>))))"
proof -
  have "mood (history ! (length history - 1)) = Sad" using h m by (simp add: last_conv_nth)
  then show ?thesis using h by (simp add: getRecommendations_def Let_def split: outcome.splits)
qed

text \<open>
  Claim C2, as the code has it. For a non-empty history whose last entry has the mood
  Sad, when the remote call fails (in transport, or with a response that has no text
  or text that is not JSON), \<open>getRecommendations\<close> returns the bundle tagged Sad with
  the three generic breathing exercises of the default and the journaling prompts,
  playlists and videos of the case \<open>'Sad'\<close>.
\<close>

theorem getRecommendations_Sad_fallback:
  assumes "history \<noteq> []" and "mood (last history) = Sad"
    and "generateContent (RecommendationsRequest (recommendationsPrompt Sad Meditation)
           (videosDescription Meditation)) = Failed f"
  shows "snd (getRecommendations generateContent history) =
     Bundle
       \<lparr>forMood = Sad,
        breathing =
          [''Take 5 deep breaths.'',
           ''Try box breathing: inhale 4s, hold 4s, exhale 4s, hold 4s.'',
           ''Focus on your breath for one minute.''],
        journaling =
          [''What's one small thing that could bring you comfort right now?'',
           ''Write a letter to your sadness, what would you say?'',
           ''Recall a memory that once made you happy.''],
        music =
          [\<lparr>title = ''Hopeful Ambient'',
             description = ''Gentle soundscapes to lift your spirits.''\<rparr>,
           \<lparr>title = ''Comforting Classics'',
             description = ''Familiar, soothing classical pieces.''\<rparr>],
        videos =
          [\<lparr>videoTitle = ''10-Min Meditation for Sadness'', videoKind = Meditation\<rparr>,
           \<lparr>videoTitle = ''Guided Visualization: Your Safe Place'', videoKind = Meditation\<rparr>]\<rparr>
     \<and> breathing defaultRecommendations =
          [''Take 5 deep breaths.'',
           ''Try box breathing: inhale 4s, hold 4s, exhale 4s, hold 4s.'',
           ''Focus on your breath for one minute.'']"
  unfolding getRecommendations_Sad_request[OF assms(1,2)] Let_def assms(3)
  by (simp add: defaultRecommendations_def)

text \<open>The theorem at a history that ends in a Sad entry and a remote model that fails.\<close>

theorem getRecommendations_Sad_fallback_witness:
  "snd (getRecommendations failingModel [calmEntry, sadEntry]) =
     Bundle
       \<lparr>forMood = Sad,
        breathing =
          [''Take 5 deep breaths.'',
           ''Try box breathing: inhale 4s, hold 4s, exhale 4s, hold 4s.'',
           ''Focus on your breath for one minute.''],
        journaling =
          [''What's one small thing that could bring you comfort right now?'',
           ''Write a letter to your sadness, what would you say?'',
           ''Recall a memory that once made you happy.''],
        music =
          [\<lparr>title = ''Hopeful Ambient'',
             description = ''Gentle soundscapes to lift your spirits.''\<rparr>,
           \<lparr>title = ''Comforting Classics'',
             description = ''Familiar, soothing classical pieces.''\<rparr>],
        videos =
          [\<lparr>videoTitle = ''10-Min Meditation for Sadness'', videoKind = Meditation\<rparr>,
           \<lparr>videoTitle = ''Guided Visualization: Your Safe Place'', videoKind = Meditation\<rparr>]\<rparr>"
proof -
  have a: "[calmEntry, sadEntry] \<noteq> []" by simp
  have b: "mood (last [calmEntry, sadEntry]) = Sad" by (simp add: sadEntry_def)
  have c: "failingModel (RecommendationsRequest (recommendationsPrompt Sad Meditation)
             (videosDescription Meditation)) = Failed TransportFailure"
    by (simp add: failingModel_def)
  show ?thesis
    using getRecommendations_Sad_fallback[of "[calmEntry, sadEntry]" failingModel TransportFailure]
      a b c
    by simp
qed

text \<open>
  The claim as stated counts a schema violation among the failures. A response that
  parses is never compared with the schema: on the answer \<open>{}\<close> the function returns
  \<open>{ forMood: 'Sad' }\<close>, which has no breathing, journaling, music or videos at all.
\<close>

theorem getRecommendations_off_schema_counterexample:
  "getRecommendations emptyObjectModel [calmEntry, sadEntry] =
     ([RecommendationsRequest (recommendationsPrompt Sad Meditation)
         (videosDescription Meditation)],
      Stamped (JObj []) Sad)"
proof -
  have a: "[calmEntry, sadEntry] \<noteq> []" by simp
  have b: "mood (last [calmEntry, sadEntry]) = Sad" by (simp add: sadEntry_def)
  show ?thesis
    unfolding getRecommendations_Sad_request[OF a b] Let_def by (simp add: emptyObjectModel_def)
qed

section \<open>Properties of the session state\<close>

lemma isHighDistress_stamp:
  "isHighDistress (e\<lparr>entryId := i, date := d\<rparr>) = isHighDistress e"
  by (simp add: isHighDistress_def)

lemma isHighDistress_iff:
  "isHighDistress e = (mood e = Sad \<or> mood e = Angry \<or> mood e = Anxious)"
  by (auto simp: isHighDistress_def)

lemma moodHistory_addMoodEntry:
  "moodHistory (addMoodEntry f a b e s) = moodHistory s @ [e\<lparr>entryId := f a, date := b\<rparr>]"
  by (simp add: addMoodEntry_def Let_def setHighDistressAlert_def)

lemma alert_addMoodEntry:
  "highDistressAlert (addMoodEntry f a b e s) = (highDistressAlert s \<or> isHighDistress e)"
  by (simp add: addMoodEntry_def Let_def setHighDistressAlert_def isHighDistress_stamp)

lemma applyEffect_keeps:
  "moodHistory (applyEffect s x) = moodHistory s"
  "highDistressAlert (applyEffect s x) = highDistressAlert s"
  "chatSession (applyEffect s x) = chatSession s"
  by (cases x; simp)+

lemma foldl_applyEffect_keeps:
  "moodHistory (foldl applyEffect s xs) = moodHistory s"
  "highDistressAlert (foldl applyEffect s xs) = highDistressAlert s"
  "chatSession (foldl applyEffect s xs) = chatSession s"
  by (induction xs arbitrary: s; simp add: applyEffect_keeps)+

lemma alert_step:
  "highDistressAlert s \<Longrightarrow> ev \<noteq> Dismiss \<Longrightarrow> highDistressAlert (step f s ev)"
  by (cases ev)
     (simp_all add: navigate_def setUser_def alert_addMoodEntry initializeChat_def
        foldl_applyEffect_keeps split: option.splits)

lemma alert_run:
  "highDistressAlert s \<Longrightarrow> Dismiss \<notin> set evs \<Longrightarrow> highDistressAlert (run f s evs)"
  unfolding run_def
  by (induction evs arbitrary: s) (auto simp: alert_step)

lemma alert_dismiss: "\<not> highDistressAlert (step f s Dismiss)"
  by (simp add: handleDismiss_def navigate_def setHighDistressAlert_def)

lemma moodHistory_step_other:
  "(\<And>a b e. ev \<noteq> AddMoodEntry a b e) \<Longrightarrow> moodHistory (step f s ev) = moodHistory s"
  by (cases ev)
     (auto simp add: navigate_def setUser_def handleDismiss_def setHighDistressAlert_def
        initializeChat_def foldl_applyEffect_keeps split: option.splits)

lemma moodHistory_step_prefix:
  "\<exists>ys. moodHistory (step f s ev) = moodHistory s @ ys"
  by (cases ev)
     (simp_all add: navigate_def setUser_def handleDismiss_def setHighDistressAlert_def
        initializeChat_def foldl_applyEffect_keeps moodHistory_addMoodEntry split: option.splits)

lemma moodHistory_run_prefix:
  "\<exists>ys. moodHistory (run f s evs) = moodHistory s @ ys"
  unfolding run_def
proof (induction evs arbitrary: s)
  case Nil
  then show ?case by simp
next
  case (Cons ev evs)
  obtain ys where a: "moodHistory (step f s ev) = moodHistory s @ ys"
    using moodHistory_step_prefix by blast
  obtain zs where b: "moodHistory (foldl (step f) (step f s ev) evs) = moodHistory (step f s ev) @ zs"
    using Cons.IH by blast
  show ?case using a b by simp
qed

lemma chatSession_step:
  "ev \<noteq> InitializeChat \<Longrightarrow> chatSession (step f s ev) = chatSession s"
  by (cases ev)
     (simp_all add: navigate_def setUser_def handleDismiss_def setHighDistressAlert_def
        addMoodEntry_def Let_def foldl_applyEffect_keeps)

lemma chatSession_run:
  "InitializeChat \<notin> set evs \<Longrightarrow> chatSession (run f s evs) = chatSession s"
  unfolding run_def
  by (induction evs arbitrary: s) (auto simp: chatSession_step)

lemma sorted_dates_addMoodEntry:
  "sorted (map date (moodHistory s)) \<Longrightarrow> \<forall>x\<in>set (moodHistory s). date x \<le> b \<Longrightarrow>
   sorted (map date (moodHistory (addMoodEntry f a b e s)))"
  by (simp add: moodHistory_addMoodEntry sorted_append)

text \<open>
  Claim C6. The distress test holds for exactly the moods Sad, Angry and Anxious. An
  entry that passes it sets the alert; an alert that is set stays set under every
  \<open>addMoodEntry\<close>, under every operation other than the dismissal and along every
  sequence of operations without a dismissal; the dismissal clears it.
\<close>

theorem distress_latch:
  "isHighDistress e = (mood e = Sad \<or> mood e = Angry \<or> mood e = Anxious) \<and>
   (isHighDistress e \<longrightarrow> highDistressAlert (addMoodEntry f a b e s)) \<and>
   (highDistressAlert s \<longrightarrow> highDistressAlert (addMoodEntry f a b e s)) \<and>
   (highDistressAlert s \<and> ev \<noteq> Dismiss \<longrightarrow> highDistressAlert (step f s ev)) \<and>
   (highDistressAlert s \<and> Dismiss \<notin> set evs \<longrightarrow> highDistressAlert (run f s evs)) \<and>
   \<not> highDistressAlert (step f s Dismiss)"
  using isHighDistress_iff[of e] alert_addMoodEntry[of f a b e s] alert_step[of s ev f]
    alert_run[of s evs f] alert_dismiss[of f s]
  by blast

text \<open>
  The theorem on a session: a Sad entry sets the alert, two Calm entries and a
  navigation keep it, the dismissal clears it.
\<close>

theorem distress_latch_witness:
  "isHighDistress sadEntry \<and> \<not> isHighDistress calmEntry \<and>
   highDistressAlert (addMoodEntry isoStub 5 5 sadEntry initialApp) \<and>
   highDistressAlert (run isoStub (addMoodEntry isoStub 5 5 sadEntry initialApp)
      [AddMoodEntry 6 6 calmEntry, Navigate Home, AddMoodEntry 7 7 calmEntry]) \<and>
   \<not> highDistressAlert (step isoStub (addMoodEntry isoStub 5 5 sadEntry initialApp) Dismiss)"
proof -
  have m: "mood sadEntry = Sad" "mood calmEntry = Calm" by (simp_all add: sadEntry_def calmEntry_def)
  have d: "Dismiss \<notin> set [AddMoodEntry 6 6 calmEntry, Navigate Home, AddMoodEntry 7 7 calmEntry]"
    by simp
  note t = distress_latch[of sadEntry isoStub 5 5 initialApp "Navigate Home"
      "[AddMoodEntry 6 6 calmEntry, Navigate Home, AddMoodEntry 7 7 calmEntry]"]
  note u = distress_latch[of calmEntry isoStub 5 5 "addMoodEntry isoStub 5 5 sadEntry initialApp" "Navigate Home"
      "[AddMoodEntry 6 6 calmEntry, Navigate Home, AddMoodEntry 7 7 calmEntry]"]
  show ?thesis using t u m d by simp
qed


text \<open>
  Claim C8, as the code has it. \<open>addMoodEntry\<close> appends exactly one entry, the one it
  is given with its id and date stamped; every other operation leaves the history as
  it is; along any sequence of operations the entries recorded before stay where they
  were, unchanged. The dates are clock readings: they stay in non-decreasing order
  when the reading of an \<open>addMoodEntry\<close> is not below the dates already recorded.
\<close>

theorem moodHistory_append_only:
  "moodHistory (addMoodEntry f a b e s) = moodHistory s @ [e\<lparr>entryId := f a, date := b\<rparr>] \<and>
   ((\<forall>a b e. ev \<noteq> AddMoodEntry a b e) \<longrightarrow> moodHistory (step f s ev) = moodHistory s) \<and>
   length (moodHistory s) \<le> length (moodHistory (run f s evs)) \<and>
   take (length (moodHistory s)) (moodHistory (run f s evs)) = moodHistory s \<and>
   (sorted (map date (moodHistory s)) \<and> (\<forall>x\<in>set (moodHistory s). date x \<le> b) \<longrightarrow>
      sorted (map date (moodHistory (addMoodEntry f a b e s))))"
proof -
  obtain ys where ys: "moodHistory (run f s evs) = moodHistory s @ ys"
    using moodHistory_run_prefix by blast
  have "length (moodHistory s) \<le> length (moodHistory (run f s evs))"
       "take (length (moodHistory s)) (moodHistory (run f s evs)) = moodHistory s"
    unfolding ys by simp_all
  then show ?thesis
    using moodHistory_addMoodEntry[of f a b e s] moodHistory_step_other[of ev f s]
      sorted_dates_addMoodEntry[of s b f a e]
    by blast
qed

text \<open>The theorem on a session of two entries stamped at 3 and 4 and a dismissal.\<close>

theorem moodHistory_append_only_witness:
  "moodHistory (step isoStub (addMoodEntry isoStub 3 3 sadEntry initialApp) Dismiss)
     = [sadEntry\<lparr>entryId := isoStub 3, date := 3\<rparr>] \<and>
   sorted (map date (moodHistory
     (addMoodEntry isoStub 4 4 calmEntry (addMoodEntry isoStub 3 3 sadEntry initialApp))))"
proof -
  let ?s = "addMoodEntry isoStub 3 3 sadEntry initialApp"
  have h: "moodHistory ?s = [sadEntry\<lparr>entryId := isoStub 3, date := 3\<rparr>]"
    by (simp add: moodHistory_addMoodEntry initialApp_def)
  have d: "\<forall>a b e. Dismiss \<noteq> AddMoodEntry a b e" by simp
  have p: "sorted (map date (moodHistory ?s)) \<and> (\<forall>x\<in>set (moodHistory ?s). date x \<le> 4)"
    unfolding h by simp
  show ?thesis
    using moodHistory_append_only[of isoStub 4 4 calmEntry ?s Dismiss "[]"] d p h by simp
qed

text \<open>
  The claim as stated (the timestamps are non-decreasing, unconditionally) fails when
  the wall clock is set back between two entries: nothing in \<open>addMoodEntry\<close> compares
  the reading with the dates recorded.
\<close>

theorem timestamps_follow_the_clock_counterexample:
  "map date (moodHistory (run isoStub initialApp
      [AddMoodEntry 10 10 sadEntry, AddMoodEntry 5 5 calmEntry])) = [10, 5] \<and>
   \<not> sorted (map date (moodHistory (run isoStub initialApp
      [AddMoodEntry 10 10 sadEntry, AddMoodEntry 5 5 calmEntry])))"
  by (simp add: run_def moodHistory_addMoodEntry initialApp_def)

text \<open>
  Claim C10. Without a chat session \<open>sendMessage\<close> issues no effect at all: no message
  is appended, nothing is sent, the typing indicator is not set, and the state is
  what it was. The session is absent in every state reached from the initial one
  without \<open>initializeChat\<close>.
\<close>

theorem sendMessage_without_session:
  "(chatSession s = None \<longrightarrow>
      sendMessage (chatSession s) a b r m = [] \<and> step f s (SendMessage a b r m) = s) \<and>
   (InitializeChat \<notin> set evs \<longrightarrow>
      chatSession (run f initialApp evs) = None \<and>
      sendMessage (chatSession (run f initialApp evs)) a b r m = [] \<and>
      step f (run f initialApp evs) (SendMessage a b r m) = run f initialApp evs)"
proof -
  have 1: "sendMessage None a b r m = []" by (simp add: sendMessage_def)
  have 2: "InitializeChat \<notin> set evs \<Longrightarrow> chatSession (run f initialApp evs) = None"
    using chatSession_run[of evs f initialApp] by (simp add: initialApp_def)
  show ?thesis using 1 2 by auto
qed

text \<open>The theorem in the initial state and after a navigation and a mood entry.\<close>

theorem sendMessage_without_session_witness:
  "sendMessage (chatSession initialApp) 1 2 (ChatText ''hi'') ''hello'' = [] \<and>
   step isoStub (run isoStub initialApp [Navigate SupportChat, AddMoodEntry 1 1 sadEntry])
     (SendMessage 1 2 ChatFailed ''hello'')
   = run isoStub initialApp [Navigate SupportChat, AddMoodEntry 1 1 sadEntry] \<and>
   chatHistory (step isoStub initialApp (SendMessage 1 2 ChatFailed ''hello'')) = [] \<and>
   \<not> isAiTyping (step isoStub initialApp (SendMessage 1 2 ChatFailed ''hello''))"
proof -
  have n: "chatSession initialApp = None" by (simp add: initialApp_def)
  have e: "InitializeChat \<notin> set [Navigate SupportChat, AddMoodEntry 1 1 sadEntry]" by simp
  have i: "chatHistory initialApp = []" "\<not> isAiTyping initialApp" by (simp_all add: initialApp_def)
  show ?thesis
    using sendMessage_without_session[of initialApp 1 2 "ChatText ''hi''" "''hello''" isoStub
        "[Navigate SupportChat, AddMoodEntry 1 1 sadEntry]"]
      sendMessage_without_session[of initialApp 1 2 ChatFailed "''hello''" isoStub
        "[Navigate SupportChat, AddMoodEntry 1 1 sadEntry]"]
      n e i
    by simp
qed

section \<open>Properties of the mood aggregation\<close>

lemma powi2_step: "(2::rat) powi (k + 1) = 2 * 2 powi k"
  by (simp add: power_int_add)

lemma binade_bounds:
  "0 < x \<Longrightarrow> 2 powi (binade x) \<le> x \<and> x < 2 powi (binade x + 1)"
proof (induction x rule: binade.induct)
  case (1 x)
  show ?case
  proof (cases "2 \<le> x")
    case True
    then have e: "binade x = binade (x / 2) + 1" using 1(3) by (subst binade.simps) simp
    have ih: "2 powi (binade (x / 2)) \<le> x / 2 \<and> x / 2 < 2 powi (binade (x / 2) + 1)"
      using 1(1)[OF _ True] 1(3) by simp
    define B :: rat where "B = 2 powi (binade (x / 2))"
    have "B \<le> x / 2" "x / 2 < 2 * B" using ih unfolding B_def powi2_step by simp_all
    then have "2 * B \<le> x \<and> x < 2 * (2 * B)" by simp
    then show ?thesis unfolding e powi2_step B_def .
  next
    case False
    show ?thesis
    proof (cases "x < 1")
      case True
      then have e: "binade x = binade (2 * x) - 1" using 1(3) False by (subst binade.simps) simp
      have ih: "2 powi (binade (2 * x)) \<le> 2 * x \<and> 2 * x < 2 powi (binade (2 * x) + 1)"
        using 1(2)[OF _ False True] 1(3) by simp
      define B :: rat where "B = 2 powi (binade (2 * x) - 1)"
      have B: "2 powi (binade (2 * x)) = 2 * B"
        using powi2_step[of "binade (2 * x) - 1"] unfolding B_def by simp
      have "2 * B \<le> 2 * x" "2 * x < 2 * (2 * B)" using ih unfolding powi2_step B by simp_all
      then have "B \<le> x \<and> x < 2 * B" by simp
      then show ?thesis unfolding e B_def using B unfolding B_def by simp
    next
      case g: False
      then have e: "binade x = 0" using 1(3) False by (subst binade.simps) simp
      show ?thesis using g False unfolding e by simp
    qed
  qed
qed

lemma roundHalfEven_cases:
  "roundHalfEven y = \<lfloor>y\<rfloor> \<or> roundHalfEven y = \<lfloor>y\<rfloor> + 1"
  unfolding roundHalfEven_def Let_def by presburger

lemma roundHalfEven_error: "\<bar>of_int (roundHalfEven y) - y\<bar> \<le> 1 / 2"
proof -
  define n where "n = \<lfloor>y\<rfloor>"
  define r where "r = y - of_int n"
  define k where "k = roundHalfEven y"
  have r: "0 \<le> r" "r < 1" unfolding r_def n_def by linarith+
  have y: "y = of_int n + r" unfolding r_def by simp
  have k: "k = (if r < 1 / 2 then n else if 1 / 2 < r then n + 1 else if even n then n else n + 1)"
    unfolding k_def roundHalfEven_def Let_def n_def r_def ..
  have "\<bar>of_int k - y\<bar> \<le> 1 / 2"
  proof (cases "r < 1 / 2")
    case True
    then have "k = n" using k by simp
    then show ?thesis using True r y by simp
  next
    case False
    show ?thesis
    proof (cases "1 / 2 < r")
      case True
      then have "k = n + 1" using k by simp
      then show ?thesis using True r y by simp
    next
      case h: False
      then have "r = 1 / 2" using False by simp
      moreover have "k = n \<or> k = n + 1" using k by presburger
      ultimately show ?thesis using y by auto
    qed
  qed
  then show ?thesis unfolding k_def .
qed

lemma roundToDouble_error:
  assumes "0 < x"
  shows "\<bar>roundToDouble x - x\<bar> \<le> x / 2 ^ 53"
proof -
  define u :: rat where "u = 2 powi (binade x - 52)"
  define n :: rat where "n = of_int (roundHalfEven (x / u))"
  define B :: rat where "B = 2 powi (binade x)"
  have u0: "0 < u" unfolding u_def by simp
  have b: "B \<le> x" using binade_bounds[OF assms] unfolding B_def by simp
  have "u = B / 2 powi 52"
    unfolding u_def B_def by (rule power_int_diff) simp
  then have u2: "u = B / 2 ^ 52" by (simp only: power_int_numeral)
  have ax: "\<bar>x\<bar> = x" "sgn x = 1" "x \<noteq> 0" using assms by simp_all
  have r: "roundToDouble x = n * u"
    unfolding roundToDouble_def Let_def u_def n_def using ax by simp
  have "n * u - x = (n - x / u) * u" using u0 by (simp add: left_diff_distrib)
  then have "\<bar>roundToDouble x - x\<bar> = \<bar>n - x / u\<bar> * u"
    unfolding r using u0 by (simp only: abs_mult abs_of_pos)
  also have "\<dots> \<le> (1 / 2) * u"
    using roundHalfEven_error[of "x / u"] u0 unfolding n_def by (intro mult_right_mono) simp_all
  also have "\<dots> = B / (2 * 2 ^ 52)" unfolding u2 by simp
  also have "\<dots> = B / 2 ^ 53" by simp
  also have "\<dots> \<le> x / 2 ^ 53" using b by (intro divide_right_mono) simp_all
  finally show ?thesis .
qed

lemma percentage_float_error:
  assumes c: "0 < c" and ct: "c \<le> t"
  defines "X \<equiv> 100 * (of_nat c :: rat) / of_nat t"
  defines "p \<equiv> roundToDouble (roundToDouble (of_nat c / of_nat t) * 100)"
  shows "\<bar>p - X\<bar> \<le> 201 / 2 ^ 53"
proof -
  define x :: rat where "x = of_nat c / of_nat t"
  define q where "q = roundToDouble x"
  have t0: "0 < (of_nat t :: rat)" using c ct by simp
  have x0: "0 < x" unfolding x_def using c t0 by simp
  have x1: "x \<le> 1" unfolding x_def using ct t0 by simp
  have eq: "\<bar>q - x\<bar> \<le> x / 2 ^ 53" unfolding q_def by (rule roundToDouble_error[OF x0])
  have "x / 2 ^ 53 < x" using x0 by (simp add: field_simps)
  then have q0: "0 < q" using eq by linarith
  have "x / 2 ^ 53 \<le> 1 / 2 ^ 53" using x1 by (intro divide_right_mono) simp_all
  then have eq1: "\<bar>q - x\<bar> \<le> 1 / 2 ^ 53" using eq by linarith
  then have q2: "q \<le> 1 + 1 / 2 ^ 53" using x1 by linarith
  have q100: "0 < q * 100" using q0 by simp
  have ep: "\<bar>p - q * 100\<bar> \<le> q * 100 / 2 ^ 53"
    unfolding p_def x_def[symmetric] q_def[symmetric] by (rule roundToDouble_error[OF q100])
  have "q * 100 / 2 ^ 53 \<le> (1 + 1 / 2 ^ 53) * 100 / 2 ^ 53"
    using q2 by (intro divide_right_mono mult_right_mono) simp_all
  also have "\<dots> \<le> 101 / 2 ^ 53" by simp
  finally have ep1: "\<bar>p - q * 100\<bar> \<le> 101 / 2 ^ 53" using ep by linarith
  have X: "X = x * 100" unfolding X_def x_def by simp
  have "q * 100 - X = (q - x) * 100" unfolding X by (simp add: left_diff_distrib)
  then have "\<bar>q * 100 - X\<bar> = \<bar>q - x\<bar> * \<bar>100\<bar>" by (simp only: abs_mult)
  then have "\<bar>q * 100 - X\<bar> = \<bar>q - x\<bar> * 100" by simp
  also have "\<dots> \<le> (1 / 2 ^ 53) * 100" using eq1 by (intro mult_right_mono) simp_all
  finally have e2: "\<bar>q * 100 - X\<bar> \<le> 100 / 2 ^ 53" by simp
  show ?thesis using ep1 e2 by linarith
qed

lemma percentageOf_range:
  assumes c: "0 < c" and ct: "c \<le> t"
  shows "0 \<le> percentageOf c t \<and> percentageOf c t \<le> 100"
proof -
  define X :: rat where "X = 100 * of_nat c / of_nat t"
  define p where "p = roundToDouble (roundToDouble (of_nat c / of_nat t) * 100)"
  have e: "\<bar>p - X\<bar> \<le> 201 / 2 ^ 53"
    unfolding p_def X_def by (rule percentage_float_error[OF c ct])
  have t0: "0 < (of_nat t :: rat)" using c ct by simp
  have "0 \<le> X" unfolding X_def using t0 by simp
  moreover have "X \<le> 100" unfolding X_def using ct t0 by (simp add: field_simps)
  moreover have "(201::rat) / 2 ^ 53 < 1 / 2" by simp
  ultimately have b: "0 \<le> p + 1 / 2" "p + 1 / 2 < 101" using e by linarith+
  have "0 \<le> \<lfloor>p + 1 / 2\<rfloor>" using b(1) by (simp only: zero_le_floor)
  moreover have "\<lfloor>p + 1 / 2\<rfloor> < 101" using b(2) by (simp only: floor_less_iff of_int_numeral)
  ultimately show ?thesis unfolding percentageOf_def mathRound_def p_def by simp
qed

lemma percentageOf_nearest:
  assumes c: "0 < c" and ct: "c \<le> t" and t: "t < 2 ^ 32"
  shows "\<bar>of_int (percentageOf c t) - 100 * (of_nat c :: rat) / of_nat t\<bar> \<le> 1 / 2"
proof -
  define X :: rat where "X = 100 * of_nat c / of_nat t"
  define p where "p = roundToDouble (roundToDouble (of_nat c / of_nat t) * 100)"
  define r where "r = \<lfloor>p + 1 / 2\<rfloor>"
  define T :: rat where "T = of_nat t"
  have e: "\<bar>p - X\<bar> \<le> 201 / 2 ^ 53"
    unfolding p_def X_def by (rule percentage_float_error[OF c ct])
  have T0: "0 < T" unfolding T_def using c ct by simp
  have "(of_nat t :: rat) < of_nat (2 ^ 32)" using t by (simp only: of_nat_less_iff)
  then have T1: "T < 2 ^ 32" unfolding T_def by simp
  have r: "of_int r \<le> p + 1 / 2" "p + 1 / 2 < of_int r + 1" unfolding r_def by linarith+
  have XT: "X * T = 100 * of_nat c" unfolding X_def T_def using T0 unfolding T_def by simp
  have gap: "201 / 2 ^ 53 < 1 / (2 * T)"
  proof -
    have "201 * (2 * T) < 201 * (2 * 2 ^ 32)" using T1 by simp
    also have "\<dots> < (2::rat) ^ 53" by simp
    finally have "201 * (2 * T) < 2 ^ 53" .
    then show ?thesis using T0 by (simp add: field_simps)
  qed
  have up: "X \<le> of_int r + 1 / 2"
  proof (rule ccontr)
    assume "\<not> X \<le> of_int r + 1 / 2"
    then have g: "of_int r + 1 / 2 < X" by simp
    define N :: int where "N = 200 * int c - (2 * r + 1) * int t"
    have "(X - (of_int r + 1 / 2)) * (2 * T) = 2 * (X * T) - (2 * of_int r + 1) * T"
      by (simp add: algebra_simps)
    also have "\<dots> = of_int N" using XT unfolding N_def T_def by simp
    finally have N: "of_int N = (X - (of_int r + 1 / 2)) * (2 * T)" by simp
    have "0 < (X - (of_int r + 1 / 2)) * (2 * T)" using g T0 by simp
    then have "0 < (of_int N :: rat)" unfolding N .
    then have "1 \<le> N" by (simp only: of_int_0_less_iff)
    then have "(1::rat) \<le> of_int N" by (simp only: of_int_1_le_iff)
    then have "1 \<le> (X - (of_int r + 1 / 2)) * (2 * T)" unfolding N .
    then have "1 / (2 * T) \<le> X - (of_int r + 1 / 2)" using T0 by (simp add: field_simps)
    then show False using gap e r g by linarith
  qed
  have lo: "of_int r - 1 / 2 \<le> X"
  proof (rule ccontr)
    assume "\<not> of_int r - 1 / 2 \<le> X"
    then have g: "X < of_int r - 1 / 2" by simp
    define N :: int where "N = (2 * r - 1) * int t - 200 * int c"
    have "((of_int r - 1 / 2) - X) * (2 * T) = (2 * of_int r - 1) * T - 2 * (X * T)"
      by (simp add: algebra_simps)
    also have "\<dots> = of_int N" using XT unfolding N_def T_def by simp
    finally have N: "of_int N = ((of_int r - 1 / 2) - X) * (2 * T)" by simp
    have "0 < ((of_int r - 1 / 2) - X) * (2 * T)" using g T0 by simp
    then have "0 < (of_int N :: rat)" unfolding N .
    then have "1 \<le> N" by (simp only: of_int_0_less_iff)
    then have "(1::rat) \<le> of_int N" by (simp only: of_int_1_le_iff)
    then have "1 \<le> ((of_int r - 1 / 2) - X) * (2 * T)" unfolding N .
    then have "1 / (2 * T) \<le> (of_int r - 1 / 2) - X" using T0 by (simp add: field_simps)
    then show False using gap e r g by linarith
  qed
  have "\<bar>of_int r - X\<bar> \<le> 1 / 2" using up lo by linarith
  then show ?thesis unfolding r_def p_def X_def percentageOf_def mathRound_def .
qed

lemma countStep_update:
  "countStep acc e =
     AList.update (mood e) ((case map_of acc (mood e) of None \<Rightarrow> 0 | Some c \<Rightarrow> c) + 1) acc"
  by (simp add: countStep_def split: option.splits)

lemma map_of_countStep:
  "map_of (countStep acc e) m =
     (if mood e = m then Some ((case map_of acc m of None \<Rightarrow> 0 | Some c \<Rightarrow> c) + 1)
      else map_of acc m)"
  by (simp add: countStep_update update_conv')

lemma map_of_counts:
  "map_of (foldl countStep acc data) m =
     (case map_of acc m of
        None \<Rightarrow> if m \<in> mood ` set data then Some (length (filter (\<lambda>e. mood e = m) data)) else None
      | Some c \<Rightarrow> Some (c + length (filter (\<lambda>e. mood e = m) data)))"
proof (induction data arbitrary: acc)
  case Nil
  then show ?case by (simp split: option.splits)
next
  case (Cons e data)
  show ?case
    by (simp add: Cons.IH map_of_countStep split: option.splits)
qed

lemma keys_countStep: "fst ` set (countStep acc e) = insert (mood e) (fst ` set acc)"
proof -
  have "fst ` set (countStep acc e) = set (map fst (countStep acc e))" by simp
  also have "\<dots> = insert (mood e) (set (map fst acc))"
    unfolding countStep_update update_keys by auto
  finally show ?thesis by simp
qed

lemma distinct_countStep: "distinct (map fst acc) \<Longrightarrow> distinct (map fst (countStep acc e))"
  by (simp add: countStep_update distinct_update)

lemma distinct_counts:
  "distinct (map fst acc) \<Longrightarrow> distinct (map fst (foldl countStep acc data))"
  by (induction data arbitrary: acc) (simp_all add: distinct_countStep)

lemma keys_counts:
  "fst ` set (foldl countStep acc data) = fst ` set acc \<union> mood ` set data"
  by (induction data arbitrary: acc) (auto simp: keys_countStep)

lemma sum_update_bump:
  "sum_list (map snd (AList.update k (Suc (case map_of al k of None \<Rightarrow> 0 | Some c \<Rightarrow> c)) al))
     = Suc (sum_list (map snd al))"
  by (induction al) (auto split: option.splits)

lemma sum_counts:
  "sum_list (map snd (foldl countStep acc data)) = sum_list (map snd acc) + length data"
  by (induction data arbitrary: acc) (simp_all add: countStep_update sum_update_bump)

lemma map_of_emojiStep:
  "map_of (emojiStep acc e) m =
     (if mood e = m \<and> (map_of acc m = None \<or> map_of acc m = Some [])
      then Some (emoji e) else map_of acc m)"
  by (auto simp: emojiStep_def update_conv' split: option.splits)

lemma emojiFor_fold:
  "emojiFor (foldl emojiStep acc h) m =
     (case map_of acc m of
        Some (c # cs) \<Rightarrow> c # cs
      | _ \<Rightarrow> (case filter (\<lambda>e. mood e = m \<and> emoji e \<noteq> []) h of
                [] \<Rightarrow> placeholderEmoji
              | e # _ \<Rightarrow> emoji e))"
proof (induction h arbitrary: acc)
  case Nil
  then show ?case by (simp add: emojiFor_def split: option.splits list.splits)
next
  case (Cons e h)
  show ?case
    by (simp add: Cons.IH map_of_emojiStep split: option.splits list.splits)
qed

lemma emojiFor_history:
  "emojiFor (foldl emojiStep [] h) m =
     (case filter (\<lambda>e. mood e = m \<and> emoji e \<noteq> []) h of
        [] \<Rightarrow> placeholderEmoji
      | e # _ \<Rightarrow> emoji e)"
  by (simp add: emojiFor_fold)

lemma sum_list_insort_key:
  "sum_list (map g (insort_key f x xs)) = g x + sum_list (map (g :: 'a \<Rightarrow> nat) xs)"
  by (induction xs) simp_all

lemma sum_list_sort_key:
  "sum_list (map g (sort_key f xs)) = sum_list (map (g :: 'a \<Rightarrow> nat) xs)"
  by (induction xs) (simp_all add: sum_list_insort_key)

lemma distinct_map_insort_key:
  "distinct (map g (insort_key f x xs)) = (g x \<notin> g ` set xs \<and> distinct (map g xs))"
  by (induction xs) (auto simp: set_insort_key)

lemma distinct_map_sort_key:
  "distinct (map g (sort_key f xs)) = distinct (map g xs)"
  by (induction xs) (simp_all add: distinct_map_insort_key)

lemma emotionStats_rows:
  assumes "data \<noteq> []"
  shows "emotionStats history data =
     sort_key (\<lambda>a. - int (statCount a))
       (map (\<lambda>(m, c). \<lparr>statMood = m, statCount = c,
                         percentage = percentageOf c (length data),
                         statEmoji = emojiFor (foldl emojiStep [] history) m\<rparr>)
          (foldl countStep [] data))"
  using assms by (simp add: emotionStats_def Let_def)

lemma counts_entry:
  assumes "(m, c) \<in> set (foldl countStep [] data)"
  shows "m \<in> mood ` set data \<and> c = length (filter (\<lambda>e. mood e = m) data)"
proof -
  have "distinct (map fst (foldl countStep [] data))" by (rule distinct_counts) simp
  then have "map_of (foldl countStep [] data) m = Some c" using assms by simp
  then show ?thesis by (simp add: map_of_counts split: if_splits)
qed

lemma emotionStats_row:
  assumes d: "data \<noteq> []" and r: "r \<in> set (emotionStats history data)"
  shows "statMood r \<in> mood ` set data"
    and "statCount r = length (filter (\<lambda>e. mood e = statMood r) data)"
    and "percentage r = percentageOf (statCount r) (length data)"
    and "statEmoji r =
      (case filter (\<lambda>e. mood e = statMood r \<and> emoji e \<noteq> []) history of
         [] \<Rightarrow> placeholderEmoji
       | e # _ \<Rightarrow> emoji e)"
proof -
  from r obtain m c where mc: "(m, c) \<in> set (foldl countStep [] data)"
    and row: "r = \<lparr>statMood = m, statCount = c, percentage = percentageOf c (length data),
                   statEmoji = emojiFor (foldl emojiStep [] history) m\<rparr>"
    unfolding emotionStats_rows[OF d] by auto
  note e = counts_entry[OF mc]
  show "statMood r \<in> mood ` set data" using e row by simp
  show "statCount r = length (filter (\<lambda>e. mood e = statMood r) data)" using e row by simp
  show "percentage r = percentageOf (statCount r) (length data)" using row by simp
  show "statEmoji r =
      (case filter (\<lambda>e. mood e = statMood r \<and> emoji e \<noteq> []) history of
         [] \<Rightarrow> placeholderEmoji
       | e # _ \<Rightarrow> emoji e)"
    using row by (simp add: emojiFor_history)
qed

lemma rows_moods:
  "map statMood (map (\<lambda>(m, c). \<lparr>statMood = m, statCount = c, percentage = P c,
                                  statEmoji = Q m\<rparr>) xs) = map fst xs"
  by (induction xs) auto

lemma rows_counts:
  "map statCount (map (\<lambda>(m, c). \<lparr>statMood = m, statCount = c, percentage = P c,
                                   statEmoji = Q m\<rparr>) xs) = map snd xs"
  by (induction xs) auto

lemma emotionStats_mood_set:
  assumes d: "data \<noteq> []"
  shows "statMood ` set (emotionStats history data) = mood ` set data"
proof -
  have "statMood ` set (emotionStats history data) = fst ` set (foldl countStep [] data)"
    unfolding emotionStats_rows[OF d] by (force simp: image_iff)
  then show ?thesis by (simp add: keys_counts)
qed

lemma emotionStats_distinct:
  assumes d: "data \<noteq> []"
  shows "distinct (map statMood (emotionStats history data))"
proof -
  have "distinct (map fst (foldl countStep [] data))" by (rule distinct_counts) simp
  then show ?thesis
    unfolding emotionStats_rows[OF d] distinct_map_sort_key rows_moods .
qed

lemma emotionStats_sorted:
  assumes d: "data \<noteq> []"
  shows "sorted_wrt (\<lambda>a b. statCount b \<le> statCount a) (emotionStats history data)"
proof -
  have "sorted (map (\<lambda>a. - int (statCount a)) (emotionStats history data))"
    unfolding emotionStats_rows[OF d] by (rule sorted_sort_key)
  then show ?thesis by (simp add: sorted_map)
qed

lemma emotionStats_sum:
  assumes d: "data \<noteq> []"
  shows "sum_list (map statCount (emotionStats history data)) = length data"
  unfolding emotionStats_rows[OF d] sum_list_sort_key rows_counts by (simp add: sum_counts)

lemma count_bounds:
  assumes "m \<in> mood ` set data"
  shows "0 < length (filter (\<lambda>e. mood e = m) data)"
    and "length (filter (\<lambda>e. mood e = m) data) \<le> length data"
proof -
  from assms obtain e where "e \<in> set data" "mood e = m" by blast
  then have "filter (\<lambda>e. mood e = m) data \<noteq> []" by (auto simp: filter_empty_conv)
  then show "0 < length (filter (\<lambda>e. mood e = m) data)" by simp
  show "length (filter (\<lambda>e. mood e = m) data) \<le> length data" by simp
qed

lemma percentage_of_thirds: "percentageOf 2 3 = 67" "percentageOf 1 3 = 33"
  by code_simp+

lemma percentage_of_all: "percentageOf 2 2 = 100"
  by code_simp

text \<open>
  A tie of the exact quotient need not go up: 23 of 40 is 57.5 percent, the doubles
  give \<open>57.49999999999999\<close>, and the row shows 57.
\<close>

lemma percentage_tie_example: "percentageOf 23 40 = 57 \<and> (100 * 23 / 40 :: rat) = 57 + 1 / 2"
  by code_simp

lemma percentage_of_Suc:
  "percentageOf (Suc (Suc 0)) (Suc (Suc (Suc 0))) = 67"
  "percentageOf (Suc 0) (Suc (Suc (Suc 0))) = 33"
  "percentageOf (Suc (Suc 0)) (Suc (Suc 0)) = 100"
  using percentage_of_thirds percentage_of_all
  by (simp_all add: numeral_2_eq_2 numeral_3_eq_3)

lemma emotionStats_example:
  "emotionStats [happyEntry, happyEntry, sadEntry] [happyEntry, happyEntry, sadEntry] =
     [\<lparr>statMood = Happy, statCount = 2, percentage = 67, statEmoji = '':D''\<rparr>,
      \<lparr>statMood = Sad, statCount = 1, percentage = 33, statEmoji = '':(''\<rparr>]"
  by (simp add: emotionStats_def Let_def countStep_def emojiStep_def emojiFor_def
      happyEntry_def sadEntry_def percentage_of_Suc)

lemma emotionStats_blank_example:
  "emotionStats [blankHappyEntry, happyEntry] [blankHappyEntry, happyEntry] =
     [\<lparr>statMood = Happy, statCount = 2, percentage = 100, statEmoji = '':D''\<rparr>]"
  by (simp add: emotionStats_def Let_def countStep_def emojiStep_def emojiFor_def
      happyEntry_def blankHappyEntry_def percentage_of_Suc)

text \<open>
  Claim C5, as the code has it. For a non-empty list of entries, \<open>emotionStats\<close> has
  one row for each mood that occurs in the list and no other row; the row holds the
  number of entries of that mood, the percentage \<open>Math.round((count / total) * 100)\<close>,
  which is an integer nearest to \<open>100 * count / total\<close> (for lists shorter than
  \<open>2\<^sup>3\<^sup>2\<close>, as every array is), and as emoji the emoji of the first entry of that mood
  in the full history whose emoji is not empty, or the placeholder when there is none.
  The rows are in descending order of count. Over two Happy entries and a Sad one the
  rows are Happy, 2, 67 and Sad, 1, 33.
\<close>

theorem emotionStats_distribution:
  assumes "data \<noteq> []"
  shows "statMood ` set (emotionStats history data) = mood ` set data \<and>
     distinct (map statMood (emotionStats history data)) \<and>
     (\<forall>r \<in> set (emotionStats history data).
        statCount r = length (filter (\<lambda>e. mood e = statMood r) data) \<and>
        percentage r = percentageOf (statCount r) (length data) \<and>
        (length data < 2 ^ 32 \<longrightarrow>
           \<bar>of_int (percentage r) - 100 * (of_nat (statCount r) :: rat) / of_nat (length data)\<bar>
             \<le> 1 / 2) \<and>
        statEmoji r =
          (case filter (\<lambda>e. mood e = statMood r \<and> emoji e \<noteq> []) history of
             [] \<Rightarrow> placeholderEmoji
           | e # _ \<Rightarrow> emoji e)) \<and>
     sorted_wrt (\<lambda>a b. statCount b \<le> statCount a) (emotionStats history data) \<and>
     emotionStats [happyEntry, happyEntry, sadEntry] [happyEntry, happyEntry, sadEntry] =
       [\<lparr>statMood = Happy, statCount = 2, percentage = 67, statEmoji = '':D''\<rparr>,
        \<lparr>statMood = Sad, statCount = 1, percentage = 33, statEmoji = '':(''\<rparr>]"
proof -
  have near: "\<bar>of_int (percentage r) - 100 * (of_nat (statCount r) :: rat) / of_nat (length data)\<bar> \<le> 1 / 2"
    if r: "r \<in> set (emotionStats history data)" and l: "length data < 2 ^ 32" for r
  proof -
    note f = emotionStats_row[OF assms r]
    have "0 < statCount r" "statCount r \<le> length data"
      unfolding f(2) using count_bounds[OF f(1)] by simp_all
    then show ?thesis unfolding f(3) using l by (rule percentageOf_nearest)
  qed
  show ?thesis
    using emotionStats_mood_set[OF assms, of history] emotionStats_distinct[OF assms, of history]
      emotionStats_row(2,3,4)[OF assms] near emotionStats_sorted[OF assms, of history]
      emotionStats_example
    by blast
qed

text \<open>The theorem over two Happy entries and a Sad one.\<close>

theorem emotionStats_distribution_witness:
  "statMood ` set (emotionStats [happyEntry, happyEntry, sadEntry] [happyEntry, happyEntry, sadEntry])
     = mood ` set [happyEntry, happyEntry, sadEntry] \<and>
   distinct (map statMood
     (emotionStats [happyEntry, happyEntry, sadEntry] [happyEntry, happyEntry, sadEntry])) \<and>
   sorted_wrt (\<lambda>a b. statCount b \<le> statCount a)
     (emotionStats [happyEntry, happyEntry, sadEntry] [happyEntry, happyEntry, sadEntry]) \<and>
   list_all (\<lambda>r. \<bar>of_int (percentage r) - 100 * (of_nat (statCount r) :: rat) / 3\<bar> \<le> 1 / 2)
     (emotionStats [happyEntry, happyEntry, sadEntry] [happyEntry, happyEntry, sadEntry]) \<and>
   map percentage
     (emotionStats [happyEntry, happyEntry, sadEntry] [happyEntry, happyEntry, sadEntry])
     = [67, 33]"
proof -
  have d: "[happyEntry, happyEntry, sadEntry] \<noteq> []" by simp
  have l: "length [happyEntry, happyEntry, sadEntry] < 2 ^ 32" by simp
  have n: "of_nat (length [happyEntry, happyEntry, sadEntry]) = (3::rat)" by simp
  note t = emotionStats_distribution[OF d, of "[happyEntry, happyEntry, sadEntry]"]
  have "list_all (\<lambda>r. \<bar>of_int (percentage r) - 100 * (of_nat (statCount r) :: rat) / 3\<bar> \<le> 1 / 2)
     (emotionStats [happyEntry, happyEntry, sadEntry] [happyEntry, happyEntry, sadEntry])"
    unfolding list_all_iff using t l unfolding n by blast
  moreover have "map percentage
     (emotionStats [happyEntry, happyEntry, sadEntry] [happyEntry, happyEntry, sadEntry])
     = [67, 33]"
    using t by simp
  ultimately show ?thesis using t by blast
qed

text \<open>
  The claim as stated (the emoji of the first occurrence of the mood) fails when that
  entry has the empty string as its emoji: \<open>!acc[entry.mood]\<close> holds again at the next
  entry of the mood, whose emoji is taken.
\<close>

theorem emotionStats_first_emoji_counterexample:
  "mood blankHappyEntry = Happy \<and> emoji blankHappyEntry = [] \<and>
   emotionStats [blankHappyEntry, happyEntry] [blankHappyEntry, happyEntry] =
     [\<lparr>statMood = Happy, statCount = 2, percentage = 100, statEmoji = '':D''\<rparr>]"
  using emotionStats_blank_example by (simp add: blankHappyEntry_def)

text \<open>
  Claim C9. For a non-empty list of entries the counts of the rows of \<open>emotionStats\<close>
  add up to the length of the list, every row is of a mood that occurs in the list and
  has a positive count, and every percentage is between 0 and 100.
\<close>

theorem emotionStats_invariants:
  assumes "data \<noteq> []"
  shows "sum_list (map statCount (emotionStats history data)) = length data \<and>
     (\<forall>r \<in> set (emotionStats history data).
        statMood r \<in> mood ` set data \<and> 0 < statCount r \<and>
        0 \<le> percentage r \<and> percentage r \<le> 100)"
proof -
  have row: "statMood r \<in> mood ` set data \<and> 0 < statCount r \<and>
        0 \<le> percentage r \<and> percentage r \<le> 100"
    if r: "r \<in> set (emotionStats history data)" for r
  proof -
    note f = emotionStats_row[OF assms r]
    have c: "0 < statCount r" "statCount r \<le> length data"
      unfolding f(2) using count_bounds[OF f(1)] by simp_all
    show ?thesis using f(1) c percentageOf_range[OF c] unfolding f(3) by simp
  qed
  show ?thesis using emotionStats_sum[OF assms, of history] row by blast
qed

text \<open>The theorem over two Happy entries and a Sad one.\<close>

theorem emotionStats_invariants_witness:
  "sum_list (map statCount
     (emotionStats [happyEntry, happyEntry, sadEntry] [happyEntry, happyEntry, sadEntry])) = 3 \<and>
   list_all (\<lambda>r. statMood r \<in> {Happy, Sad} \<and> 0 < statCount r \<and>
                  0 \<le> percentage r \<and> percentage r \<le> 100)
     (emotionStats [happyEntry, happyEntry, sadEntry] [happyEntry, happyEntry, sadEntry])"
proof -
  have d: "[happyEntry, happyEntry, sadEntry] \<noteq> []" by simp
  have m: "mood ` set [happyEntry, happyEntry, sadEntry] = {Happy, Sad}"
    by (simp add: happyEntry_def sadEntry_def)
  note t = emotionStats_invariants[OF d, of "[happyEntry, happyEntry, sadEntry]"]
  show ?thesis unfolding list_all_iff using t unfolding m by simp
qed

end
